theory Spec2Isabelle
  imports Complex_Main "HOL-Library.AList"
begin

section \<open>Numbers of the scoring code\<close>

text \<open>
  Every number of the room actor is an IEEE-754 binary64 value. Timestamps, scores,
  streaks and time limits are integers far below \<open>2^53\<close> and are modelled as
  \<open>int\<close>; the three operations of the scoring code whose results are not integers
  (the division \<open>remaining / timeLimit\<close>, the streak multiplier and the product with
  it) are modelled by exact rational arithmetic followed by rounding to the nearest
  binary64 value, ties to even (\<open>dbl\<close>). Overflow and subnormal results do not occur
  for the operands of the scoring code and are not modelled.
\<close>

fun bitlen_nat :: "nat \<Rightarrow> nat" where
  "bitlen_nat n = (if n = 0 then 0 else Suc (bitlen_nat (n div 2)))"

declare bitlen_nat.simps [simp del]

definition pow2 :: "int \<Rightarrow> rat" where
  "pow2 k = (if 0 \<le> k then 2 ^ nat k else 1 / 2 ^ nat (- k))"

definition ilog2 :: "rat \<Rightarrow> int" where
  \<comment> \<open>for \<open>x > 0\<close>: the exponent \<open>e\<close> with \<open>2^e \<le> x < 2^(e+1)\<close>\<close>
  "ilog2 x = (if 1 \<le> x then int (bitlen_nat (nat \<lfloor>x\<rfloor>)) - 1
              else - int (bitlen_nat (nat (\<lceil>1 / x\<rceil> - 1))))"

definition round_half_even :: "rat \<Rightarrow> int" where
  "round_half_even x =
     (let f = \<lfloor>x\<rfloor>; d = x - of_int f
      in if d < 1 / 2 then f
         else if 1 / 2 < d then f + 1
         else if even f then f else f + 1)"

definition dbl :: "rat \<Rightarrow> rat" where
  "dbl x =
     (if x = 0 then 0
      else let u = pow2 (ilog2 \<bar>x\<bar> - 52)
           in of_int (round_half_even (x / u)) * u)"

text \<open>The literal \<open>0.1\<close> of the source, and the binary operations on doubles.\<close>

definition lit_0_1 :: rat where
  "lit_0_1 = dbl (1 / 10)"

definition fadd :: "rat \<Rightarrow> rat \<Rightarrow> rat" where
  "fadd x y = dbl (x + y)"

definition fmul :: "rat \<Rightarrow> rat \<Rightarrow> rat" where
  "fmul x y = dbl (x * y)"

definition fdiv :: "rat \<Rightarrow> rat \<Rightarrow> rat" where
  \<comment> \<open>the divisor is never 0 where the model calls it (time limits are clamped to 5..90)\<close>
  "fdiv x y = dbl (x / y)"

section \<open>Data model\<close>

text \<open>
  The interfaces of \<open>GameRoom.ts\<close>. The two \<open>Record<string, Player>\<close> objects
  are association lists in insertion order (\<open>Object.keys\<close> and \<open>Object.values\<close>
  enumerate string keys in that order; assigning to an existing key keeps its place,
  which is \<open>AList.update\<close>, and \<open>delete\<close> is \<open>AList.delete\<close>). Field \<open>id\<close> is
  \<open>oid\<close>, \<open>qid\<close>, \<open>gid\<close>, field \<open>text\<close> is \<open>qtext\<close> and field \<open>round\<close> is
  \<open>roundS\<close>, since those names are taken in HOL. \<open>timeLimitSeconds\<close> is an integer
  number of seconds.
\<close>

record Player =
  name :: string
  score :: int
  answeredAtMs :: "int option"
  selectedOptionId :: "string option"
  lastCorrect :: bool
  delta :: int
  streak :: int
  rejoinToken :: string

record QuizOption =
  oid :: string
  label :: string
  shape :: "string option"
  color :: "string option"

record QuizQuestion =
  qid :: string
  qtext :: string
  imageUrl :: "string option"
  imageRef :: "string option"
  timeLimitSeconds :: int
  options :: "QuizOption list"
  correctOptionIds :: "string list"
  index :: nat

record RoundState =
  startMs :: int
  endMs :: int
  awaiting :: "string list"
  msRemaining :: "int option"

record GameState =
  gid :: string
  title :: string
  questions :: "QuizQuestion list"
  players :: "(string \<times> Player) list"
  disconnectedPlayers :: "(string \<times> Player) list"
  started :: bool
  paused :: bool
  currentIndex :: int
  roundS :: "RoundState option"
  hostTag :: "string option"
  hostSecret :: string

subsection \<open>Outbound messages\<close>

record LeaderboardEntry =
  lb_name :: string
  lb_score :: int
  lb_lastCorrect :: bool
  lb_delta :: int
  lb_streak :: int

record SafeQ =
  sq_id :: string
  sq_index :: int
  sq_total :: nat
  sq_text :: string
  sq_imageUrl :: "string option"
  sq_imageData :: "string option"
  sq_timeLimitSeconds :: int
  sq_options :: "QuizOption list"

record Reveal =
  rv_correctOptionIds :: "string list"
  rv_index :: int
  rv_total :: nat
  rv_leaderboard :: "LeaderboardEntry list"
  rv_counts :: "nat list"
  rv_playerChoices :: "(string \<times> string list) list"
  rv_percentCorrect :: int
  rv_fastestName :: "string option"

text \<open>
  The allow-list of \<open>onPlayerReact\<close> holds six emoji; any other value of
  \<open>payload.emoji\<close> is \<open>OtherText\<close>.
\<close>

datatype emoji = Clap | Fire | Joy | Skull | Party | MindBlown | OtherText string

datatype ack =
    AckError string
  | AckJoined string string nat string
  | AckReconnected string string string
  | AckExists string

datatype event =
    LobbyUpdate "string list" string string
  | GameStarted string
  | QuestionShow SafeQ
  | PlayerLocked "string option"
  | RoundProgress nat nat
  | QuestionReveal Reveal
  | HostCanAdvance
  | GamePaused int
  | GameResumed int
  | ReactionReceived string emoji
  | PlayerKicked
  | GameCancelled
  | GameOver "LeaderboardEntry list"
  | Ack nat ack
  | CloseSocket

text \<open>
  \<open>Broadcast\<close> is \<open>this.broadcast\<close> (every socket), \<open>ToTag t\<close> is \<open>this.toTag\<close>
  (every socket tagged \<open>t\<close>), \<open>ToSocket t\<close> is a send on the socket of the inbound
  message, named by its tag.
\<close>

datatype target = Broadcast | ToTag string | ToSocket string

subsection \<open>The actor\<close>

text \<open>
  \<open>cache\<close> is the field \<open>_state\<close>, \<open>stored\<close> the value under key \<open>gs\<close> of the
  storage, \<open>alarmAt\<close> the scheduled alarm, \<open>sent\<close> the messages sent so far, oldest
  first, \<open>wsRateMap\<close> the field \<open>_wsRateMap\<close>. A handler receives the object held in
  \<open>_state\<close> and mutates it in place; the model writes each mutated state to
  \<open>cache\<close>, and to \<open>stored\<close> where the source calls \<open>saveState\<close>. \<open>storage.deleteAll\<close> removes the stored keys; the model
  leaves the alarm to \<open>deleteAlarm\<close>, and no statement below rests on that.
\<close>

record Actor =
  cache :: "GameState option"
  stored :: "GameState option"
  alarmAt :: "int option"
  sent :: "(target \<times> event) list"
  wsRateMap :: "(string \<times> int list) list"

datatype error = TypeError

text \<open>
  A handler returns, or throws with the actor as it is at the throw. Where the source
  goes on in a way that the records above cannot hold, the model stops, with the actor
  as it is at that point:
  \<^item> \<open>EmptyPlayerStored\<close>: \<open>state.players[wsTag]\<close> has become the object \<open>{}\<close>, a
    player without any field, the state is saved and the join acknowledged with
    \<open>ok: true, reconnected: true\<close>;
  \<^item> \<open>PrototypeReplaced\<close>: an assignment to the key \<open>__proto__\<close> of a plain object
    (\<open>state.disconnectedPlayers\<close> in \<open>webSocketClose\<close>, \<open>playerChoices\<close> in
    \<open>endRound\<close>) has replaced the prototype of that object instead of adding a key.
\<close>

datatype beyond = EmptyPlayerStored | PrototypeReplaced

datatype outcome = Returned Actor | Threw error Actor | Beyond beyond Actor

text \<open>
  Reading \<open>obj[k]\<close> on a plain object finds the object's own key first and then the
  properties that every object inherits from \<open>Object.prototype\<close>, all of them truthy.
  Connection tags are \<open>host\<close> or \<open>role-xxxxxxxx\<close> and option identifiers come from
  the quiz; the model reads those with \<open>map_of\<close>. Player names come from the
  \<open>player:join\<close> message and are read with \<open>getProp\<close>.
\<close>

definition objectPrototypeKeys :: "string list" where
  "objectPrototypeKeys =
     [''constructor'', ''__proto__'', ''hasOwnProperty'', ''isPrototypeOf'',
      ''propertyIsEnumerable'', ''toLocaleString'', ''toString'', ''valueOf'',
      ''__defineGetter__'', ''__defineSetter__'', ''__lookupGetter__'', ''__lookupSetter__'']"

datatype 'a property = Undefined | Own 'a | Inherited

definition getProp :: "(string \<times> 'a) list \<Rightarrow> string \<Rightarrow> 'a property" where
  "getProp obj k =
     (case map_of obj k of
        Some v \<Rightarrow> Own v
      | None \<Rightarrow> if k \<in> set objectPrototypeKeys then Inherited else Undefined)"

definition getState :: "Actor \<Rightarrow> GameState option \<times> Actor" where
  "getState a =
     (case cache a of
        Some s \<Rightarrow> (Some s, a)
      | None \<Rightarrow> (stored a, a\<lparr>cache := stored a\<rparr>))"

definition saveState :: "Actor \<Rightarrow> GameState \<Rightarrow> Actor" where
  "saveState a s = a\<lparr>cache := Some s, stored := Some s\<rparr>"

definition emit :: "target \<Rightarrow> event \<Rightarrow> Actor \<Rightarrow> Actor" where
  "emit t e a = a\<lparr>sent := sent a @ [(t, e)]\<rparr>"

definition toHost :: "GameState \<Rightarrow> event \<Rightarrow> Actor \<Rightarrow> Actor" where
  "toHost s e a =
     (case hostTag s of
        None \<Rightarrow> a
      | Some t \<Rightarrow> if t = [] then a else emit (ToTag t) e a)"

definition broadcastLobby :: "GameState \<Rightarrow> Actor \<Rightarrow> Actor" where
  "broadcastLobby s a =
     emit Broadcast (LobbyUpdate (map (\<lambda>(t, p). name p) (players s)) (gid s) (title s)) a"

definition getLeaderboard :: "GameState \<Rightarrow> LeaderboardEntry list" where
  "getLeaderboard s =
     sort_key (\<lambda>e. - lb_score e)
       (map (\<lambda>(t, p). \<lparr>lb_name = name p, lb_score = score p, lb_lastCorrect = lastCorrect p,
                        lb_delta = delta p, lb_streak = streak p\<rparr>) (players s))"

definition questionAt :: "GameState \<Rightarrow> QuizQuestion option" where
  \<comment> \<open>\<open>state.questions[state.currentIndex]\<close>, \<open>None\<close> for \<open>undefined\<close>\<close>
  "questionAt s =
     (if 0 \<le> currentIndex s \<and> currentIndex s < int (length (questions s))
      then Some (questions s ! nat (currentIndex s)) else None)"

section \<open>Closing a round\<close>

text \<open>
  The body of the scoring loop of \<open>endRound\<close> for one player; \<open>e\<close> is the round's
  \<open>endMs\<close>.
\<close>

definition isCorrect :: "QuizQuestion \<Rightarrow> Player \<Rightarrow> bool" where
  "isCorrect q p =
     (case selectedOptionId p of
        None \<Rightarrow> False
      | Some opt \<Rightarrow> opt \<in> set (correctOptionIds q))"

definition roundBase :: "QuizQuestion \<Rightarrow> int \<Rightarrow> int \<Rightarrow> int" where
  "roundBase q e t =
     (let timeLimit = timeLimitSeconds q * 1000;
          remaining = max 0 (e - t)
      in \<lfloor>fadd 500 (fmul 500 (fdiv (of_int remaining) (of_int timeLimit)))\<rfloor>)"

definition streakMult :: "int \<Rightarrow> rat" where
  "streakMult k =
     (if 2 \<le> k then min (3 / 2) (fadd 1 (fmul (of_int (k - 1)) lit_0_1)) else 1)"

definition scorePlayer :: "QuizQuestion \<Rightarrow> int \<Rightarrow> Player \<Rightarrow> Player" where
  "scorePlayer q e p =
     (let correct = isCorrect q p
      in case (correct, answeredAtMs p) of
           (True, Some t) \<Rightarrow>
             (let k = streak p + 1;
                  d = \<lfloor>fmul (of_int (roundBase q e t)) (streakMult k)\<rfloor>
              in p\<lparr>lastCorrect := correct, streak := k, score := score p + d, delta := d\<rparr>)
         | _ \<Rightarrow> p\<lparr>lastCorrect := correct, streak := 0, delta := 0\<rparr>)"

text \<open>
  With \<open>q\<close> undefined the loop resets the players that have not answered and throws at
  the first one that has (\<open>q.correctOptionIds\<close> of \<open>undefined\<close>); when nobody has
  answered the throw comes right after the loop, at \<open>q.options\<close>.
\<close>

fun resetUntilAnswered :: "(string \<times> Player) list \<Rightarrow> (string \<times> Player) list" where
  "resetUntilAnswered [] = []"
| "resetUntilAnswered ((t, p) # ps) =
     (if selectedOptionId p \<noteq> None then (t, p) # ps
      else (t, p\<lparr>lastCorrect := False, streak := 0, delta := 0\<rparr>) # resetUntilAnswered ps)"

definition truthy :: "string option \<Rightarrow> bool" where
  \<comment> \<open>a string or null used as a condition\<close>
  "truthy x = (case x of None \<Rightarrow> False | Some v \<Rightarrow> v \<noteq> [])"

text \<open>
  \<open>optionCounts\<close> and \<open>playerChoices\<close> are plain objects keyed by option identifier.
  A key that is assigned twice is one key, and the keys come out (in the message) with
  the array indices first, in ascending order, and the other keys after them in the
  order of their first assignment.
\<close>

definition isDigit :: "char \<Rightarrow> bool" where
  "isDigit c = (let n = (of_char c :: nat) in 48 \<le> n \<and> n \<le> 57)"

definition digitsValue :: "string \<Rightarrow> int" where
  "digitsValue k = foldl (\<lambda>n c. 10 * n + (of_char c - 48)) 0 k"

definition isArrayIndex :: "string \<Rightarrow> bool" where
  \<comment> \<open>a canonical numeric string below \<open>2^32 - 1\<close>\<close>
  "isArrayIndex k =
     (case k of
        [] \<Rightarrow> False
      | c # cs \<Rightarrow>
          list_all isDigit k \<and> (cs = [] \<or> c \<noteq> CHR ''0'') \<and> digitsValue k < 4294967295)"

definition ownKeys :: "string list \<Rightarrow> string list" where
  "ownKeys ks =
     (let firsts = rev (remdups (rev ks))
      in sort_key digitsValue (filter isArrayIndex firsts) @
         filter (\<lambda>k. \<not> isArrayIndex k) firsts)"

definition optionCount :: "Player list \<Rightarrow> string \<Rightarrow> nat" where
  "optionCount ps i =
     length (filter (\<lambda>p. truthy (selectedOptionId p) \<and> selectedOptionId p = Some i) ps)"

definition optionChoosers :: "Player list \<Rightarrow> string \<Rightarrow> string list" where
  "optionChoosers ps i =
     map name (filter (\<lambda>p. truthy (selectedOptionId p) \<and> selectedOptionId p = Some i) ps)"

text \<open>
  \<open>playerChoices[p.selectedOptionId].push(p.name)\<close> runs when the lookup is not
  \<open>undefined\<close>. For a chosen option that is no option of the current question (an
  answer carried over by a rejoin) the lookup finds what every object inherits, which
  has no \<open>push\<close>: the call throws. The same lookup in \<open>optionCounts\<close> only adds a key
  that the message does not show.
\<close>

definition pushThrows :: "QuizQuestion \<Rightarrow> Player \<Rightarrow> bool" where
  "pushThrows q p =
     (case selectedOptionId p of
        None \<Rightarrow> False
      | Some k \<Rightarrow>
          k \<noteq> [] \<and> \<not> list_ex (\<lambda>opt. oid opt = k) (options q) \<and> k \<in> set objectPrototypeKeys)"

definition percentCorrect :: "Player list \<Rightarrow> int" where
  \<comment> \<open>\<open>Math.round\<close> is the floor of its argument plus one half\<close>
  "percentCorrect ps =
     (let totalAnswered = length (filter (\<lambda>p. selectedOptionId p \<noteq> None) ps);
          correctAnswered = length (filter lastCorrect ps)
      in if 0 < totalAnswered
         then \<lfloor>fmul (fdiv (of_nat correctAnswered) (of_nat totalAnswered)) 100 + 1 / 2\<rfloor>
         else 0)"

definition fastestStep :: "string option \<times> int option \<Rightarrow> Player \<Rightarrow> string option \<times> int option" where
  \<comment> \<open>the second component is \<open>fastestMs\<close>, \<open>None\<close> for \<open>Infinity\<close>\<close>
  "fastestStep acc p =
     (case answeredAtMs p of
        None \<Rightarrow> acc
      | Some t \<Rightarrow>
          if lastCorrect p \<and> (case snd acc of None \<Rightarrow> True | Some m \<Rightarrow> t < m)
          then (Some (name p), Some t) else acc)"

definition fastestName :: "Player list \<Rightarrow> string option" where
  "fastestName ps = fst (foldl fastestStep (None, None) ps)"

definition revealOf :: "GameState \<Rightarrow> QuizQuestion \<Rightarrow> Reveal" where
  "revealOf s q =
     (let vals = map snd (players s)
      in \<lparr>rv_correctOptionIds = correctOptionIds q,
          rv_index = currentIndex s,
          rv_total = length (questions s),
          rv_leaderboard = getLeaderboard s,
          rv_counts = map (\<lambda>opt. optionCount vals (oid opt)) (options q),
          rv_playerChoices = map (\<lambda>k. (k, optionChoosers vals k)) (ownKeys (map oid (options q))),
          rv_percentCorrect = percentCorrect vals,
          rv_fastestName = fastestName vals\<rparr>)"

text \<open>
  After the scoring loop \<open>endRound\<close> fills the two tables. With an option named
  \<open>__proto__\<close> the table of choosers gets a new prototype and the model stops. The
  throw of \<open>push\<close> comes before the reveal, before \<open>state.round = null\<close> and before
  \<open>saveState\<close>: the scores are in memory only and the round stays open.
\<close>

definition endRound :: "Actor \<Rightarrow> GameState \<Rightarrow> outcome" where
  "endRound a s =
     (case roundS s of
        None \<Rightarrow> Returned a
      | Some r \<Rightarrow>
          (case questionAt s of
             None \<Rightarrow>
               Threw TypeError (a\<lparr>cache := Some (s\<lparr>players := resetUntilAnswered (players s)\<rparr>)\<rparr>)
           | Some q \<Rightarrow>
               (let s1 = s\<lparr>players := map (\<lambda>(t, p). (t, scorePlayer q (endMs r) p)) (players s)\<rparr>
                in if list_ex (\<lambda>opt. oid opt = ''__proto__'') (options q)
                   then Beyond PrototypeReplaced (a\<lparr>cache := Some s1\<rparr>)
                   else if list_ex (pushThrows q) (map snd (players s1))
                   then Threw TypeError (a\<lparr>cache := Some s1\<rparr>)
                   else (let a1 = emit Broadcast (QuestionReveal (revealOf s1 q)) a;
                             s2 = s1\<lparr>roundS := None\<rparr>;
                             a2 = saveState a1 s2
                         in Returned (toHost s2 HostCanAdvance a2)))))"

section \<open>Names\<close>

text \<open>
  \<open>sanitizeName\<close> on strings of code units below 256. \<open>\w\<close> is
  \<open>[A-Za-z0-9_]\<close>; \<open>\s\<close> and \<open>trim\<close> take the code units 9 to 13, 32 and 160
  in that range.
\<close>

definition isWordChar :: "char \<Rightarrow> bool" where
  "isWordChar c =
     (let n = (of_char c :: nat)
      in (48 \<le> n \<and> n \<le> 57) \<or> (65 \<le> n \<and> n \<le> 90) \<or> (97 \<le> n \<and> n \<le> 122) \<or> n = 95)"

definition isSpace :: "char \<Rightarrow> bool" where
  "isSpace c = (let n = (of_char c :: nat) in (9 \<le> n \<and> n \<le> 13) \<or> n = 32 \<or> n = 160)"

function stripTags :: "string \<Rightarrow> string" where
  "stripTags [] = []"
| "stripTags (c # cs) =
     (if c = CHR ''<''
      then (case dropWhile (\<lambda>x. x \<noteq> CHR ''>'') cs of
              [] \<Rightarrow> c # stripTags cs
            | g # rest \<Rightarrow> stripTags rest)
      else c # stripTags cs)"
  by pat_completeness auto

termination
proof (relation "measure length")
  fix c :: char and cs g rest
  assume "dropWhile (\<lambda>x. x \<noteq> CHR ''>'') cs = g # rest"
  then have "length (g # rest) \<le> length cs"
    by (metis length_dropWhile_le)
  then show "(rest, c # cs) \<in> measure length" by simp
qed simp_all

definition trim :: "string \<Rightarrow> string" where
  "trim xs = rev (dropWhile isSpace (rev (dropWhile isSpace xs)))"

definition sanitizeName :: "string \<Rightarrow> string" where
  "sanitizeName nm =
     trim (take 24 (filter (\<lambda>c. isWordChar c \<or> isSpace c \<or> c \<in> set ''-.!'' \<or> c = CHR 0x27)
                      (stripTags nm)))"

section \<open>Game flow\<close>

text \<open>
  \<open>now\<close> is the reading of \<open>Date.now()\<close>; the readings within one event are taken
  as equal.
\<close>

definition endGame :: "Actor \<Rightarrow> GameState \<Rightarrow> int \<Rightarrow> outcome" where
  "endGame a s now =
     (let a1 = emit Broadcast (GameOver (getLeaderboard s)) a;
          a2 = a1\<lparr>alarmAt := Some (now + 60000)\<rparr>;
          s1 = s\<lparr>started := False\<rparr>
      in Returned (saveState a2 s1))"

definition resetPlayer :: "Player \<Rightarrow> Player" where
  "resetPlayer p = p\<lparr>answeredAtMs := None, selectedOptionId := None, lastCorrect := False, delta := 0\<rparr>"

definition safeQOf :: "GameState \<Rightarrow> QuizQuestion \<Rightarrow> string option \<Rightarrow> SafeQ" where
  "safeQOf s q imageData =
     \<lparr>sq_id = qid q, sq_index = currentIndex s, sq_total = length (questions s),
      sq_text = qtext q, sq_imageUrl = imageUrl q, sq_imageData = imageData,
      sq_timeLimitSeconds = timeLimitSeconds q, sq_options = options q\<rparr>"

definition startQuestion :: "Actor \<Rightarrow> GameState \<Rightarrow> string option \<Rightarrow> int \<Rightarrow> outcome" where
  "startQuestion a s imageData now =
     (let s1 = s\<lparr>currentIndex := currentIndex s + 1\<rparr>
      in if int (length (questions s1)) \<le> currentIndex s1 then endGame a s1 now
         else (case questionAt s1 of
                 None \<Rightarrow> Threw TypeError (a\<lparr>cache := Some s1\<rparr>)
               | Some q \<Rightarrow>
                   (let startMs = now;
                        endMs = startMs + timeLimitSeconds q * 1000;
                        s2 = s1\<lparr>players := map (\<lambda>(t, p). (t, resetPlayer p)) (players s1)\<rparr>;
                        s3 = s2\<lparr>paused := False,
                                roundS := Some \<lparr>startMs = startMs, endMs = endMs,
                                                awaiting = map fst (players s2),
                                                msRemaining = None\<rparr>\<rparr>;
                        a1 = a\<lparr>alarmAt := Some endMs\<rparr>;
                        a2 = saveState a1 s3
                    in Returned (emit Broadcast (QuestionShow (safeQOf s3 q imageData)) a2))))"

section \<open>Game event handlers\<close>

definition alarm :: "Actor \<Rightarrow> outcome" where
  "alarm a =
     (case getState a of
        (None, a0) \<Rightarrow> Returned a0
      | (Some s, a0) \<Rightarrow>
          if roundS s = None then Returned (a0\<lparr>cache := None, stored := None\<rparr>)
          else if paused s then Returned a0
          else endRound a0 s)"

definition onHostStart :: "Actor \<Rightarrow> GameState \<Rightarrow> string \<Rightarrow> string option \<Rightarrow> int \<Rightarrow> outcome" where
  "onHostStart a s wsTag imageData now =
     (if wsTag \<noteq> ''host'' \<or> started s then Returned a
      else (let s1 = s\<lparr>started := True\<rparr>;
                a1 = saveState a s1;
                a2 = emit Broadcast (GameStarted (title s1)) a1
            in startQuestion a2 s1 imageData now))"

definition onHostPause :: "Actor \<Rightarrow> GameState \<Rightarrow> string \<Rightarrow> int \<Rightarrow> outcome" where
  "onHostPause a s wsTag now =
     (case roundS s of
        None \<Rightarrow> Returned a
      | Some r \<Rightarrow>
          if wsTag \<noteq> ''host'' \<or> paused s then Returned a
          else (let rem = max 0 (endMs r - now);
                    s1 = s\<lparr>paused := True, roundS := Some (r\<lparr>msRemaining := Some rem\<rparr>)\<rparr>;
                    a1 = a\<lparr>alarmAt := None\<rparr>;
                    a2 = saveState a1 s1
                in Returned (emit Broadcast (GamePaused rem) a2)))"

definition onHostResume :: "Actor \<Rightarrow> GameState \<Rightarrow> string \<Rightarrow> int \<Rightarrow> outcome" where
  "onHostResume a s wsTag now =
     (case roundS s of
        None \<Rightarrow> Returned a
      | Some r \<Rightarrow>
          if wsTag \<noteq> ''host'' \<or> \<not> paused s then Returned a
          else (let rem = (case msRemaining r of None \<Rightarrow> 5000 | Some m \<Rightarrow> m);
                    r1 = r\<lparr>endMs := now + rem, msRemaining := None\<rparr>;
                    s1 = s\<lparr>paused := False, roundS := Some r1\<rparr>;
                    a1 = a\<lparr>alarmAt := Some (endMs r1)\<rparr>;
                    a2 = saveState a1 s1
                in Returned (emit Broadcast (GameResumed rem) a2)))"

definition onHostNext :: "Actor \<Rightarrow> GameState \<Rightarrow> string \<Rightarrow> string option \<Rightarrow> int \<Rightarrow> outcome" where
  "onHostNext a s wsTag imageData now =
     (if wsTag \<noteq> ''host'' then Returned a else startQuestion a s imageData now)"

definition ack :: "string \<Rightarrow> nat option \<Rightarrow> ack \<Rightarrow> Actor \<Rightarrow> Actor" where
  \<comment> \<open>the closure \<open>ack\<close> of \<open>webSocketMessage\<close>: it sends only when the message had a \<open>reqId\<close>\<close>
  "ack wsTag reqId d a = (case reqId of None \<Rightarrow> a | Some n \<Rightarrow> emit (ToSocket wsTag) (Ack n d) a)"

definition newPlayer :: "string \<Rightarrow> string \<Rightarrow> Player" where
  "newPlayer safeName tok =
     \<lparr>name = safeName, score = 0, answeredAtMs = None, selectedOptionId = None,
      lastCorrect = False, delta = 0, streak = 0, rejoinToken = tok\<rparr>"

text \<open>
  \<open>nm\<close> and \<open>tok\<close> are \<open>payload.name\<close> and \<open>payload.rejoinToken\<close>, \<open>uuid\<close> the value
  that \<open>crypto.randomUUID()\<close> returns when the handler calls it.
\<close>

definition onPlayerJoin ::
  "Actor \<Rightarrow> GameState \<Rightarrow> string \<Rightarrow> string option \<Rightarrow> string option \<Rightarrow> nat option \<Rightarrow> string \<Rightarrow> outcome" where
  "onPlayerJoin a s wsTag nm tok reqId uuid =
     (if \<not> truthy nm then Returned (ack wsTag reqId (AckError ''Name required.'') a)
      else let safeName = sanitizeName (case nm of Some n \<Rightarrow> n | None \<Rightarrow> [])
      in if safeName = [] then Returned (ack wsTag reqId (AckError ''Invalid name.'') a)
      else if started s then
        (case getProp (disconnectedPlayers s) safeName of
           Undefined \<Rightarrow> Returned (ack wsTag reqId (AckError ''Game already started.'') a)
         | Inherited \<Rightarrow> Beyond EmptyPlayerStored a
         | Own disc \<Rightarrow>
             if rejoinToken disc \<noteq> [] \<and> tok \<noteq> Some (rejoinToken disc)
             then Returned (ack wsTag reqId (AckError ''Invalid rejoin credentials.'') a)
             else (let s1 = s\<lparr>disconnectedPlayers := AList.delete safeName (disconnectedPlayers s)\<rparr>;
                       s2 = s1\<lparr>players := AList.update wsTag disc (players s1)\<rparr>;
                       a1 = saveState a s2;
                       a2 = ack wsTag reqId (AckReconnected (gid s2) (title s2) (rejoinToken disc)) a1;
                       a3 = emit (ToSocket wsTag) (GameStarted (title s2)) a2
                   in Returned (broadcastLobby s2 a3)))
      else if 100 \<le> length (players s)
        then Returned (ack wsTag reqId (AckError ''Game is full.'') a)
      else if list_ex (\<lambda>p. name p = safeName) (map snd (players s))
        then Returned (ack wsTag reqId (AckError ''Name already taken.'') a)
      else (let s1 = s\<lparr>players := AList.update wsTag (newPlayer safeName uuid) (players s)\<rparr>;
                a1 = saveState a s1;
                a2 = ack wsTag reqId
                       (AckJoined (gid s1) (title s1) (length (questions s1)) uuid) a1
            in Returned (broadcastLobby s1 a2)))"

definition onPlayerAnswer ::
  "Actor \<Rightarrow> GameState \<Rightarrow> string \<Rightarrow> string option \<Rightarrow> string option \<Rightarrow> int \<Rightarrow> outcome" where
  "onPlayerAnswer a s wsTag questionId optionId now =
     (case roundS s of
        None \<Rightarrow> Returned a
      | Some r \<Rightarrow>
          if paused s then Returned a
          else (case map_of (players s) wsTag of
                  None \<Rightarrow> Returned a
                | Some p \<Rightarrow>
                    (case questionAt s of
                       None \<Rightarrow> Returned a
                     | Some q \<Rightarrow>
                         if Some (qid q) \<noteq> questionId then Returned a
                         else if selectedOptionId p \<noteq> None then Returned a
                         else if \<not> truthy optionId \<or>
                                 \<not> list_ex (\<lambda>opt. Some (oid opt) = optionId) (options q)
                           then Returned a
                         else (let p1 = p\<lparr>selectedOptionId := optionId, answeredAtMs := Some now\<rparr>;
                                   r1 = r\<lparr>awaiting := filter (\<lambda>t. t \<noteq> wsTag) (awaiting r)\<rparr>;
                                   s1 = s\<lparr>players := AList.update wsTag p1 (players s),
                                           roundS := Some r1\<rparr>;
                                   a1 = emit (ToTag wsTag) (PlayerLocked optionId) a;
                                   answeredCount =
                                     length (filter (\<lambda>pl. selectedOptionId pl \<noteq> None)
                                               (map snd (players s1)));
                                   a2 = toHost s1 (RoundProgress answeredCount (length (players s1))) a1
                               in if awaiting r1 = []
                                  then endRound (saveState (a2\<lparr>alarmAt := None\<rparr>) s1) s1
                                  else Returned (saveState a2 s1)))))"

definition onHostKickPlayer :: "Actor \<Rightarrow> GameState \<Rightarrow> string \<Rightarrow> string option \<Rightarrow> outcome" where
  "onHostKickPlayer a s wsTag playerName =
     (if wsTag \<noteq> ''host'' \<or> started s then Returned a
      else if \<not> truthy playerName then Returned a
      else (case find (\<lambda>(t, p). Some (name p) = playerName) (players s) of
              None \<Rightarrow> Returned a
            | Some (playerTag, p) \<Rightarrow>
                (let a1 = emit (ToTag playerTag) PlayerKicked a;
                     a2 = emit (ToTag playerTag) CloseSocket a1;
                     s1 = s\<lparr>players := AList.delete playerTag (players s)\<rparr>;
                     a3 = saveState a2 s1
                 in Returned (broadcastLobby s1 a3))))"

definition onPlayerReact :: "Actor \<Rightarrow> GameState \<Rightarrow> string \<Rightarrow> emoji option \<Rightarrow> outcome" where
  "onPlayerReact a s wsTag em =
     (if \<not> started s then Returned a
      else (case map_of (players s) wsTag of
              None \<Rightarrow> Returned a
            | Some p \<Rightarrow>
                (case em of
                   None \<Rightarrow> Returned a
                 | Some (OtherText x) \<Rightarrow> Returned a
                 | Some e \<Rightarrow> Returned (toHost s (ReactionReceived (name p) e) a))))"

section \<open>Connections\<close>

definition webSocketClose :: "Actor \<Rightarrow> string \<Rightarrow> outcome" where
  "webSocketClose a wsTag =
     (case getState a of
        (None, a0) \<Rightarrow> Returned a0
      | (Some s, a0) \<Rightarrow>
          if wsTag = ''host''
          then Returned ((emit Broadcast GameCancelled a0)\<lparr>cache := None, stored := None\<rparr>)
          else (case map_of (players s) wsTag of
                  None \<Rightarrow> Returned a0
                | Some player \<Rightarrow>
                    if started s \<and> name player = ''__proto__'' then Beyond PrototypeReplaced a0
                    else (let s1 = (if started s
                                    then s\<lparr>disconnectedPlayers :=
                                             AList.update (name player) player (disconnectedPlayers s)\<rparr>
                                    else s);
                              s2 = s1\<lparr>players := AList.delete wsTag (players s1)\<rparr>;
                              s3 = s2\<lparr>roundS :=
                                        map_option
                                          (\<lambda>r. r\<lparr>awaiting := filter (\<lambda>t. t \<noteq> wsTag) (awaiting r)\<rparr>)
                                          (roundS s2)\<rparr>;
                              a1 = broadcastLobby s3 a0
                          in if roundS s3 \<noteq> None \<and> players s3 = []
                             then Returned (saveState (a1\<lparr>alarmAt := None\<rparr>) (s3\<lparr>roundS := None\<rparr>))
                             else Returned (saveState a1 s3))))"

text \<open>The status check of \<open>fetch\<close>: a request that is neither \<open>/init\<close> nor an upgrade.\<close>

datatype status = StatusError string | StatusOk string

definition statusCheck :: "Actor \<Rightarrow> status \<times> Actor" where
  "statusCheck a =
     (case getState a of
        (None, a0) \<Rightarrow> (StatusError ''Room not found.'', a0)
      | (Some s, a0) \<Rightarrow>
          if started s then (StatusError ''Game already started.'', a0)
          else (StatusOk (title s), a0))"

text \<open>
  An inbound message after \<open>JSON.parse\<close> (\<open>None\<close> when parsing throws), with the
  fields of the payload that the handlers read.
\<close>

datatype message =
    HostStartGame "string option"
  | HostPause
  | HostResume
  | HostNext "string option"
  | PlayerJoin "string option" "string option"
  | PlayerAnswer "string option" "string option"
  | PlayerReact "emoji option"
  | GameExists
  | HostKickPlayer "string option"
  | UnknownType

definition dispatch :: "Actor \<Rightarrow> GameState \<Rightarrow> string \<Rightarrow> message \<Rightarrow> nat option \<Rightarrow> int \<Rightarrow> string \<Rightarrow> outcome" where
  "dispatch a s wsTag m reqId now uuid =
     (case m of
        HostStartGame img \<Rightarrow> onHostStart a s wsTag img now
      | HostPause \<Rightarrow> onHostPause a s wsTag now
      | HostResume \<Rightarrow> onHostResume a s wsTag now
      | HostNext img \<Rightarrow> onHostNext a s wsTag img now
      | PlayerJoin nm tok \<Rightarrow> onPlayerJoin a s wsTag nm tok reqId uuid
      | PlayerAnswer questionId optionId \<Rightarrow> onPlayerAnswer a s wsTag questionId optionId now
      | PlayerReact em \<Rightarrow> onPlayerReact a s wsTag em
      | GameExists \<Rightarrow> Returned (ack wsTag reqId (AckExists (title s)) a)
      | HostKickPlayer nm \<Rightarrow> onHostKickPlayer a s wsTag nm
      | UnknownType \<Rightarrow> Returned a)"

definition webSocketMessage ::
  "Actor \<Rightarrow> string \<Rightarrow> message option \<Rightarrow> nat option \<Rightarrow> int \<Rightarrow> string \<Rightarrow> outcome" where
  "webSocketMessage a wsTag parsed reqId now uuid =
     (let hits = (case map_of (wsRateMap a) wsTag of None \<Rightarrow> [] | Some h \<Rightarrow> h);
          hits1 = dropWhile (\<lambda>h. h < now - 10000) hits @ [now];
          a1 = a\<lparr>wsRateMap := AList.update wsTag hits1 (wsRateMap a)\<rparr>
      in if 30 < length hits1 then Returned a1
         else (case getState a1 of
                 (None, a2) \<Rightarrow> Returned (emit (ToSocket wsTag) CloseSocket a2)
               | (Some s, a2) \<Rightarrow>
                   (case parsed of
                      None \<Rightarrow> Returned a2
                    | Some m \<Rightarrow> dispatch a2 s wsTag m reqId now uuid)))"

section \<open>A two-question room\<close>

definition optA :: QuizOption where
  "optA = \<lparr>oid = ''a'', label = ''3'', shape = None, color = None\<rparr>"

definition optB :: QuizOption where
  "optB = \<lparr>oid = ''b'', label = ''4'', shape = None, color = None\<rparr>"

definition q1 :: QuizQuestion where
  "q1 = \<lparr>qid = ''q1'', qtext = ''What is 2 + 2?'', imageUrl = None, imageRef = None,
         timeLimitSeconds = 20, options = [optA, optB], correctOptionIds = [''b''], index = 0\<rparr>"

definition q2 :: QuizQuestion where
  "q2 = \<lparr>qid = ''q2'', qtext = ''What is 9 / 3?'', imageUrl = None, imageRef = None,
         timeLimitSeconds = 20, options = [optA, optB], correctOptionIds = [''a''], index = 1\<rparr>"

definition alice :: Player where
  "alice = newPlayer ''Alice'' ''token-alice''"

definition bob :: Player where
  "bob = newPlayer ''Bob'' ''token-bob''"

definition lobbyRoom :: GameState where
  "lobbyRoom =
     \<lparr>gid = ''ABC234'', title = ''Sums'', questions = [q1, q2],
      players = [(''player-1'', alice), (''player-2'', bob)], disconnectedPlayers = [],
      started = False, paused = False, currentIndex = - 1, roundS = None,
      hostTag = Some ''host'', hostSecret = ''secret''\<rparr>"

definition roundRoom :: GameState where
  \<comment> \<open>the first question is open since time 1000\<close>
  "roundRoom =
     lobbyRoom\<lparr>started := True, currentIndex := 0,
               roundS := Some \<lparr>startMs = 1000, endMs = 21000,
                               awaiting = [''player-1'', ''player-2''], msRemaining = None\<rparr>\<rparr>"

definition actorOf :: "GameState \<Rightarrow> Actor" where
  "actorOf s = \<lparr>cache = Some s, stored = Some s, alarmAt = None, sent = [], wsRateMap = []\<rparr>"

definition answeredRoom :: GameState where
  \<comment> \<open>Alice has chosen the right option at once, Bob the wrong one after five seconds\<close>
  "answeredRoom =
     roundRoom\<lparr>players :=
       [(''player-1'', alice\<lparr>selectedOptionId := Some ''b'', answeredAtMs := Some 1000\<rparr>),
        (''player-2'', bob\<lparr>selectedOptionId := Some ''a'', answeredAtMs := Some 6000\<rparr>)]\<rparr>"

definition revealRoom :: GameState where
  \<comment> \<open>the first round has closed, the host has not advanced yet\<close>
  "revealRoom = roundRoom\<lparr>roundS := None\<rparr>"

definition pausedRoom :: GameState where
  "pausedRoom =
     roundRoom\<lparr>paused := True,
               roundS := Some \<lparr>startMs = 1000, endMs = 21000,
                               awaiting = [''player-1'', ''player-2''],
                               msRemaining = Some 12000\<rparr>\<rparr>"

definition lastRoom :: GameState where
  \<comment> \<open>the second and last round has closed, the host has not advanced yet\<close>
  "lastRoom =
     lobbyRoom\<lparr>started := True, currentIndex := 1,
               players := [(''player-1'', alice\<lparr>score := 1000, streak := 1\<rparr>), (''player-2'', bob)]\<rparr>"

definition gameOverRoom :: GameState where
  "gameOverRoom = lastRoom\<lparr>currentIndex := 2, started := False\<rparr>"

definition gameOverActor :: Actor where
  "gameOverActor =
     \<lparr>cache = Some gameOverRoom, stored = Some gameOverRoom, alarmAt = Some 110000,
      sent = [(Broadcast, GameOver (getLeaderboard lastRoom))], wsRateMap = []\<rparr>"

definition roundActor :: Actor where
  \<comment> \<open>the first question is open and its alarm is scheduled\<close>
  "roundActor = (actorOf roundRoom)\<lparr>alarmAt := Some 21000\<rparr>"

definition lockedRoom :: GameState where
  \<comment> \<open>Alice has answered the first question, Bob has not\<close>
  "lockedRoom =
     roundRoom\<lparr>players :=
                 [(''player-1'', alice\<lparr>selectedOptionId := Some ''b'', answeredAtMs := Some 5000\<rparr>),
                  (''player-2'', bob)],
               roundS := Some \<lparr>startMs = 1000, endMs = 21000, awaiting = [''player-2''],
                               msRemaining = None\<rparr>\<rparr>"

definition lockedActor :: Actor where
  "lockedActor =
     \<lparr>cache = Some lockedRoom, stored = Some lockedRoom, alarmAt = Some 21000,
      sent = [(ToTag ''player-1'', PlayerLocked (Some ''b'')), (ToTag ''host'', RoundProgress 1 2)],
      wsRateMap = []\<rparr>"

definition bobSnapshot :: Player where
  \<comment> \<open>Bob as he was when he disconnected during the first round, option \<open>a\<close> chosen at 5000\<close>
  "bobSnapshot = bob\<lparr>selectedOptionId := Some ''a'', answeredAtMs := Some 5000\<rparr>"

definition rejoinRoom :: GameState where
  \<comment> \<open>the second question is open since 30000, Alice is awaited, Bob is disconnected\<close>
  "rejoinRoom =
     lobbyRoom\<lparr>started := True, currentIndex := 1,
               players := [(''player-1'', alice)],
               disconnectedPlayers := [(''Bob'', bobSnapshot)],
               roundS := Some \<lparr>startMs = 30000, endMs = 50000, awaiting = [''player-1''],
                               msRemaining = None\<rparr>\<rparr>"

definition q5 :: QuizQuestion where
  "q5 = q1\<lparr>qid := ''q5'', index := 4\<rparr>"

definition fiveQuestions :: "QuizQuestion list" where
  "fiveQuestions = [q1, q2, q1\<lparr>qid := ''q3'', index := 2\<rparr>, q2\<lparr>qid := ''q4'', index := 3\<rparr>, q5]"

definition aliceOnStreak :: Player where
  \<comment> \<open>Alice after four right answers in a row, each given at once (1000 + 1100 + 1200 + 1300),
      the fifth chosen with six seconds left\<close>
  "aliceOnStreak =
     alice\<lparr>score := 4600, streak := 4, selectedOptionId := Some ''b'', answeredAtMs := Some 135000\<rparr>"

definition streakRoom :: GameState where
  \<comment> \<open>the fifth question, of twenty seconds, is open until 141000\<close>
  "streakRoom =
     lobbyRoom\<lparr>questions := fiveQuestions, started := True, currentIndex := 4,
               players := [(''player-1'', aliceOnStreak), (''player-2'', bob)],
               roundS := Some \<lparr>startMs = 121000, endMs = 141000, awaiting = [''player-2''],
                               msRemaining = None\<rparr>\<rparr>"

definition optCtor :: QuizOption where
  "optCtor = \<lparr>oid = ''constructor'', label = ''5'', shape = None, color = None\<rparr>"

definition q1c :: QuizQuestion where
  \<comment> \<open>the first question with a third option, named \<open>constructor\<close>\<close>
  "q1c = q1\<lparr>options := [optA, optB, optCtor]\<rparr>"

definition bobCarried :: Player where
  \<comment> \<open>Bob as he was when he disconnected during the first round, option \<open>constructor\<close> chosen\<close>
  "bobCarried = bob\<lparr>selectedOptionId := Some ''constructor'', answeredAtMs := Some 5000\<rparr>"

definition lobbyRoomC :: GameState where
  "lobbyRoomC = lobbyRoom\<lparr>questions := [q1c, q2]\<rparr>"

definition waitingRoom :: GameState where
  \<comment> \<open>the second question is open since 30000, Alice is awaited, Bob is disconnected\<close>
  "waitingRoom =
     lobbyRoomC\<lparr>started := True, currentIndex := 1,
                players := [(''player-1'', alice\<lparr>score := 850, streak := 1\<rparr>)],
                disconnectedPlayers := [(''Bob'', bobCarried)],
                roundS := Some \<lparr>startMs = 30000, endMs = 50000, awaiting = [''player-1''],
                                msRemaining = None\<rparr>\<rparr>"

definition waitingActor :: Actor where
  "waitingActor = (actorOf waitingRoom)\<lparr>alarmAt := Some 50000\<rparr>"

definition carriedRoom :: GameState where
  \<comment> \<open>Bob is back under a new connection, with the option he chose in the first round\<close>
  "carriedRoom =
     waitingRoom\<lparr>players := [(''player-1'', alice\<lparr>score := 850, streak := 1\<rparr>),
                             (''player-7'', bobCarried)],
                 disconnectedPlayers := []\<rparr>"

definition carriedActor :: Actor where
  "carriedActor = (actorOf carriedRoom)\<lparr>alarmAt := Some 50000\<rparr>"

text \<open>A run of events: the next handler, on an actor whose last handler returned.\<close>

definition andThen :: "outcome \<Rightarrow> (Actor \<Rightarrow> GameState \<Rightarrow> outcome) \<Rightarrow> outcome" where
  "andThen out f =
     (case out of
        Returned a \<Rightarrow> (case fst (getState a) of Some s \<Rightarrow> f (snd (getState a)) s | None \<Rightarrow> out)
      | _ \<Rightarrow> out)"

section \<open>The scoring formula in exact arithmetic\<close>

text \<open>
  The formula as the specification words it, over the rationals:
  \<open>base = floor (500 + 500 * remainingTimeFraction)\<close> with
  \<open>remainingTimeFraction = max (0, endMs - answeredAtMs) / (timeLimitSeconds * 1000)\<close>,
  the multiplier \<open>min (1.5, 1.0 + (streak - 1) * 0.1)\<close> from streak 2 on, and
  \<open>delta = floor (base * multiplier)\<close>.
\<close>

definition exactBase :: "QuizQuestion \<Rightarrow> int \<Rightarrow> int \<Rightarrow> int" where
  "exactBase q e t =
     \<lfloor>500 + 500 * (rat_of_int (max 0 (e - t)) / rat_of_int (timeLimitSeconds q * 1000))\<rfloor>"

definition exactMultiplier :: "int \<Rightarrow> rat" where
  "exactMultiplier k = (if 2 \<le> k then min (3 / 2) (1 + (rat_of_int k - 1) * (1 / 10)) else 1)"

definition exactDelta :: "QuizQuestion \<Rightarrow> int \<Rightarrow> int \<Rightarrow> int \<Rightarrow> int" where
  "exactDelta q e t k = \<lfloor>rat_of_int (exactBase q e t) * exactMultiplier k\<rfloor>"

section \<open>What the helpers leave alone\<close>

lemma cache_emit [simp]: "cache (emit t e a) = cache a"
  and stored_emit [simp]: "stored (emit t e a) = stored a"
  and alarmAt_emit [simp]: "alarmAt (emit t e a) = alarmAt a"
  and sent_emit [simp]: "sent (emit t e a) = sent a @ [(t, e)]"
  and wsRateMap_emit [simp]: "wsRateMap (emit t e a) = wsRateMap a"
  by (simp_all add: emit_def)

lemma cache_toHost [simp]: "cache (toHost s e a) = cache a"
  and stored_toHost [simp]: "stored (toHost s e a) = stored a"
  and alarmAt_toHost [simp]: "alarmAt (toHost s e a) = alarmAt a"
  and wsRateMap_toHost [simp]: "wsRateMap (toHost s e a) = wsRateMap a"
  by (simp_all add: toHost_def split: option.splits)

lemma cache_saveState [simp]: "cache (saveState a s) = Some s"
  and stored_saveState [simp]: "stored (saveState a s) = Some s"
  and alarmAt_saveState [simp]: "alarmAt (saveState a s) = alarmAt a"
  and sent_saveState [simp]: "sent (saveState a s) = sent a"
  and wsRateMap_saveState [simp]: "wsRateMap (saveState a s) = wsRateMap a"
  by (simp_all add: saveState_def)

lemma cache_broadcastLobby [simp]: "cache (broadcastLobby s a) = cache a"
  and stored_broadcastLobby [simp]: "stored (broadcastLobby s a) = stored a"
  and alarmAt_broadcastLobby [simp]: "alarmAt (broadcastLobby s a) = alarmAt a"
  and wsRateMap_broadcastLobby [simp]: "wsRateMap (broadcastLobby s a) = wsRateMap a"
  by (simp_all add: broadcastLobby_def)

lemma cache_ack [simp]: "cache (ack w n d a) = cache a"
  and stored_ack [simp]: "stored (ack w n d a) = stored a"
  and alarmAt_ack [simp]: "alarmAt (ack w n d a) = alarmAt a"
  and wsRateMap_ack [simp]: "wsRateMap (ack w n d a) = wsRateMap a"
  by (simp_all add: ack_def split: option.splits)

section \<open>Scoring at the close of a round\<close>

lemma base_full_time: "\<lfloor>fadd 500 (fmul 500 (fdiv 20000 20000))\<rfloor> = 1000"
  by code_simp

lemma base_no_time: "\<lfloor>fadd 500 (fmul 500 (fdiv 0 20000))\<rfloor> = 500"
  by code_simp

lemma times_one: "\<lfloor>fmul 1000 1\<rfloor> = 1000" "\<lfloor>fmul 500 1\<rfloor> = 500"
  by code_simp+

lemma streakMult_3: "streakMult 3 = dbl (6 / 5)"
  by code_simp

lemma streakMult_10: "streakMult 10 = 3 / 2"
  by code_simp

lemma scorePlayer_correct:
  "isCorrect q p \<Longrightarrow> answeredAtMs p = Some t \<Longrightarrow>
   scorePlayer q e p =
     p\<lparr>lastCorrect := True, streak := streak p + 1,
       score := score p + \<lfloor>fmul (of_int (roundBase q e t)) (streakMult (streak p + 1))\<rfloor>,
       delta := \<lfloor>fmul (of_int (roundBase q e t)) (streakMult (streak p + 1))\<rfloor>\<rparr>"
  by (simp add: scorePlayer_def Let_def)

lemma scorePlayer_wrong:
  "\<not> isCorrect q p \<or> answeredAtMs p = None \<Longrightarrow>
   scorePlayer q e p = p\<lparr>lastCorrect := isCorrect q p, streak := 0, delta := 0\<rparr>"
  by (auto simp add: scorePlayer_def Let_def split: option.splits bool.splits)

lemma selected_scorePlayer [simp]: "selectedOptionId (scorePlayer q e p) = selectedOptionId p"
  by (simp add: scorePlayer_def Let_def split: option.splits bool.splits)

lemma pushThrows_scorePlayer [simp]: "pushThrows q (scorePlayer q' e p) = pushThrows q p"
  by (simp add: pushThrows_def)

lemma pushThrows_scored:
  "list_ex (pushThrows q) (map (snd \<circ> (\<lambda>(t, p). (t, scorePlayer q' e p))) ps) =
   list_ex (pushThrows q) (map snd ps)"
  by (induction ps) auto

text \<open>
  The three ways out of \<open>endRound\<close> when the question is defined. In each of them the
  scoring loop has run on the state in memory.
\<close>

lemma endRound_closes:
  assumes "roundS s = Some r" and "questionAt s = Some q"
    and "\<not> list_ex (\<lambda>opt. oid opt = ''__proto__'') (options q)"
    and "\<not> list_ex (pushThrows q) (map snd (players s))"
  shows "endRound a s =
    Returned (toHost (s\<lparr>players := map (\<lambda>(t, p). (t, scorePlayer q (endMs r) p)) (players s),
                        roundS := None\<rparr>) HostCanAdvance
      (saveState
         (emit Broadcast
            (QuestionReveal
               (revealOf (s\<lparr>players := map (\<lambda>(t, p). (t, scorePlayer q (endMs r) p)) (players s)\<rparr>) q))
            a)
         (s\<lparr>players := map (\<lambda>(t, p). (t, scorePlayer q (endMs r) p)) (players s),
            roundS := None\<rparr>)))"
  using assms by (simp add: endRound_def Let_def pushThrows_scored)

lemma endRound_throws:
  assumes "roundS s = Some r" and "questionAt s = Some q"
    and "\<not> list_ex (\<lambda>opt. oid opt = ''__proto__'') (options q)"
    and "list_ex (pushThrows q) (map snd (players s))"
  shows "endRound a s =
    Threw TypeError
      (a\<lparr>cache := Some (s\<lparr>players := map (\<lambda>(t, p). (t, scorePlayer q (endMs r) p)) (players s)\<rparr>)\<rparr>)"
  using assms by (simp add: endRound_def Let_def pushThrows_scored)

lemma endRound_Returned:
  assumes "roundS s = Some r" and "endRound a s = Returned a'"
  shows "\<exists>s'. cache a' = Some s' \<and> stored a' = Some s' \<and> roundS s' = None"
  using assms
  by (auto simp add: endRound_def Let_def split: option.splits if_splits)

lemma endRound_scores_in_memory:
  assumes "roundS s = Some r" and "questionAt s = Some q"
  shows "\<exists>a' s'. (endRound a s = Returned a' \<or> endRound a s = Threw TypeError a' \<or>
                   endRound a s = Beyond PrototypeReplaced a') \<and>
           cache a' = Some s' \<and>
           players s' = map (\<lambda>(t, p). (t, scorePlayer q (endMs r) p)) (players s)"
  using assms by (auto simp add: endRound_def Let_def)

lemma scored_nth:
  "i < length ps \<Longrightarrow>
   snd (map (\<lambda>(t, p). (t, scorePlayer q e p)) ps ! i) = scorePlayer q e (snd (ps ! i))"
  by (simp add: case_prod_unfold)

lemma scored_keys: "map fst (map (\<lambda>(t, p). (t, f p)) ps) = map fst ps"
  by (simp add: case_prod_unfold comp_def)

lemma example_close:
  "(case endRound (actorOf answeredRoom) answeredRoom of
      Returned a \<Rightarrow>
        (case cache a of
           Some s \<Rightarrow>
             map (\<lambda>(t, p). (delta p, streak p, score p)) (players s) = [(1000, 1, 1000), (0, 0, 0)]
         | None \<Rightarrow> False)
    | _ \<Rightarrow> False)"
  by code_simp

text \<open>
  Where \<open>endRound\<close> closes the round, every player is scored in place by the formula
  of the source, in its double arithmetic.
\<close>

lemma endRound_scores_in_doubles:
  assumes "roundS s = Some r" and "questionAt s = Some q" and "0 < timeLimitSeconds q"
    and "\<not> list_ex (\<lambda>opt. oid opt = ''__proto__'') (options q)"
    and "\<not> list_ex (pushThrows q) (map snd (players s))"
  shows "(\<exists>a' s'. endRound a s = Returned a' \<and> cache a' = Some s' \<and> stored a' = Some s' \<and>
           map fst (players s') = map fst (players s) \<and>
           (\<forall>i < length (players s). \<forall>p p'.
              snd (players s ! i) = p \<longrightarrow> snd (players s' ! i) = p' \<longrightarrow>
              (\<forall>t. isCorrect q p \<and> answeredAtMs p = Some t \<longrightarrow>
                 streak p' = streak p + 1 \<and>
                 delta p' =
                   \<lfloor>fmul (of_int \<lfloor>fadd 500 (fmul 500
                            (fdiv (of_int (max 0 (endMs r - t)))
                                  (of_int (timeLimitSeconds q * 1000))))\<rfloor>)
                         (if 2 \<le> streak p'
                          then min (3 / 2) (fadd 1 (fmul (of_int (streak p' - 1)) lit_0_1))
                          else 1)\<rfloor> \<and>
                 score p' = score p + delta p') \<and>
              (\<not> isCorrect q p \<or> answeredAtMs p = None \<longrightarrow>
                 delta p' = 0 \<and> streak p' = 0 \<and> score p' = score p))) \<and>
         (\<forall>p e. timeLimitSeconds q = 20 \<and> isCorrect q p \<and> streak p = 0 \<and>
            answeredAtMs p = Some (e - 20000) \<longrightarrow> delta (scorePlayer q e p) = 1000) \<and>
         (\<forall>p e. timeLimitSeconds q = 20 \<and> isCorrect q p \<and> streak p = 0 \<and>
            answeredAtMs p = Some e \<longrightarrow> delta (scorePlayer q e p) = 500) \<and>
         streakMult 3 = dbl (6 / 5) \<and> streakMult 10 = 3 / 2"
proof (intro conjI)
  let ?ps = "map (\<lambda>(t, p). (t, scorePlayer q (endMs r) p)) (players s)"
  let ?s2 = "s\<lparr>players := ?ps, roundS := None\<rparr>"
  let ?a' = "toHost ?s2 HostCanAdvance
               (saveState (emit Broadcast (QuestionReveal (revealOf (s\<lparr>players := ?ps\<rparr>) q)) a) ?s2)"
  have good: "streak p' = streak p + 1 \<and>
        delta p' =
          \<lfloor>fmul (of_int \<lfloor>fadd 500 (fmul 500
                   (fdiv (of_int (max 0 (endMs r - t)))
                         (of_int (timeLimitSeconds q * 1000))))\<rfloor>)
                (if 2 \<le> streak p'
                 then min (3 / 2) (fadd 1 (fmul (of_int (streak p' - 1)) lit_0_1))
                 else 1)\<rfloor> \<and>
        score p' = score p + delta p'"
    if "p' = scorePlayer q (endMs r) p" "isCorrect q p \<and> answeredAtMs p = Some t" for p p' t
    using that by (simp add: scorePlayer_correct roundBase_def streakMult_def Let_def)
  have bad: "delta p' = 0 \<and> streak p' = 0 \<and> score p' = score p"
    if "p' = scorePlayer q (endMs r) p" "\<not> isCorrect q p \<or> answeredAtMs p = None" for p p'
    using that by (simp add: scorePlayer_wrong)
  have each: "(\<forall>t. isCorrect q p \<and> answeredAtMs p = Some t \<longrightarrow>
                 streak p' = streak p + 1 \<and>
                 delta p' =
                   \<lfloor>fmul (of_int \<lfloor>fadd 500 (fmul 500
                            (fdiv (of_int (max 0 (endMs r - t)))
                                  (of_int (timeLimitSeconds q * 1000))))\<rfloor>)
                         (if 2 \<le> streak p'
                          then min (3 / 2) (fadd 1 (fmul (of_int (streak p' - 1)) lit_0_1))
                          else 1)\<rfloor> \<and>
                 score p' = score p + delta p') \<and>
              (\<not> isCorrect q p \<or> answeredAtMs p = None \<longrightarrow>
                 delta p' = 0 \<and> streak p' = 0 \<and> score p' = score p)"
    if "i < length (players s)" "snd (players s ! i) = p" "snd (players ?s2 ! i) = p'" for i p p'
  proof -
    have "p' = scorePlayer q (endMs r) p"
      using that scored_nth [of i "players s" q "endMs r"] by simp
    then show ?thesis using good bad by blast
  qed
  have "endRound a s = Returned ?a' \<and> cache ?a' = Some ?s2 \<and> stored ?a' = Some ?s2 \<and>
        map fst (players ?s2) = map fst (players s)"
    using endRound_closes [OF assms(1,2,4,5), of a] scored_keys [of "scorePlayer q (endMs r)" "players s"]
    by simp
  with each show "\<exists>a' s'. endRound a s = Returned a' \<and> cache a' = Some s' \<and> stored a' = Some s' \<and>
           map fst (players s') = map fst (players s) \<and>
           (\<forall>i < length (players s). \<forall>p p'.
              snd (players s ! i) = p \<longrightarrow> snd (players s' ! i) = p' \<longrightarrow>
              (\<forall>t. isCorrect q p \<and> answeredAtMs p = Some t \<longrightarrow>
                 streak p' = streak p + 1 \<and>
                 delta p' =
                   \<lfloor>fmul (of_int \<lfloor>fadd 500 (fmul 500
                            (fdiv (of_int (max 0 (endMs r - t)))
                                  (of_int (timeLimitSeconds q * 1000))))\<rfloor>)
                         (if 2 \<le> streak p'
                          then min (3 / 2) (fadd 1 (fmul (of_int (streak p' - 1)) lit_0_1))
                          else 1)\<rfloor> \<and>
                 score p' = score p + delta p') \<and>
              (\<not> isCorrect q p \<or> answeredAtMs p = None \<longrightarrow>
                 delta p' = 0 \<and> streak p' = 0 \<and> score p' = score p))"
    by blast
  show "\<forall>p e. timeLimitSeconds q = 20 \<and> isCorrect q p \<and> streak p = 0 \<and>
           answeredAtMs p = Some (e - 20000) \<longrightarrow> delta (scorePlayer q e p) = 1000"
    by (simp add: scorePlayer_correct roundBase_def streakMult_def base_full_time times_one)
  show "\<forall>p e. timeLimitSeconds q = 20 \<and> isCorrect q p \<and> streak p = 0 \<and>
           answeredAtMs p = Some e \<longrightarrow> delta (scorePlayer q e p) = 500"
    by (simp add: scorePlayer_correct roundBase_def streakMult_def base_no_time times_one)
  show "streakMult 3 = dbl (6 / 5)" by (rule streakMult_3)
  show "streakMult 10 = 3 / 2" by (rule streakMult_10)
qed

text \<open>
  C1, at a concrete room. Alice is on a streak of four and has chosen the right option
  of the fifth question (twenty seconds) with six seconds left; Bob has not answered.
  The base is 650 in the source and in exact arithmetic alike, and the formula of the
  claim, \<open>floor (650 * min (1.5, 1.0 + (5 - 1) * 0.1))\<close>, is 910. When the round closes
  the source awards 909: its multiplier is the double next below \<open>1.4\<close>, the product is
  the double next below 910, and the floor takes the point away.
\<close>

theorem streak_five_earns_909_not_910:
  "roundS streakRoom = Some \<lparr>startMs = 121000, endMs = 141000, awaiting = [''player-2''],
                             msRemaining = None\<rparr> \<and>
   questionAt streakRoom = Some q5 \<and> timeLimitSeconds q5 = 20 \<and>
   map_of (players streakRoom) ''player-1'' = Some aliceOnStreak \<and>
   isCorrect q5 aliceOnStreak \<and> streak aliceOnStreak = 4 \<and>
   answeredAtMs aliceOnStreak = Some 135000 \<and>
   exactBase q5 141000 135000 = 650 \<and> roundBase q5 141000 135000 = 650 \<and>
   exactMultiplier 5 = 7 / 5 \<and> exactDelta q5 141000 135000 5 = 910 \<and>
   streakMult 5 < 7 / 5 \<and> \<lfloor>fmul 650 (streakMult 5)\<rfloor> = 909 \<and>
   (case endRound (actorOf streakRoom) streakRoom of
      Returned a \<Rightarrow>
        (case cache a of
           Some s \<Rightarrow>
             stored a = Some s \<and> roundS s = None \<and>
             map (\<lambda>(t, p). (streak p, delta p, score p)) (players s) = [(5, 909, 5509), (0, 0, 0)]
         | None \<Rightarrow> False)
    | _ \<Rightarrow> False)"
  by code_simp

theorem streak_five_earns_909_not_910_witness:
  "exactDelta q5 141000 135000 5 = 910 \<and>
   (\<exists>a s. endRound (actorOf streakRoom) streakRoom = Returned a \<and> cache a = Some s \<and>
      map (\<lambda>(t, p). delta p) (players s) = [909, 0])"
proof -
  from streak_five_earns_909_not_910
  have d: "exactDelta q5 141000 135000 5 = 910"
    and c: "(case endRound (actorOf streakRoom) streakRoom of
      Returned a \<Rightarrow>
        (case cache a of
           Some s \<Rightarrow>
             stored a = Some s \<and> roundS s = None \<and>
             map (\<lambda>(t, p). (streak p, delta p, score p)) (players s) = [(5, 909, 5509), (0, 0, 0)]
         | None \<Rightarrow> False)
    | _ \<Rightarrow> False)"
    by simp_all
  from c obtain a s where run: "endRound (actorOf streakRoom) streakRoom = Returned a"
    and s: "cache a = Some s"
    and m: "map (\<lambda>(t, p). (streak p, delta p, score p)) (players s) = [(5, 909, 5509), (0, 0, 0)]"
    by (auto split: outcome.splits option.splits)
  from m have "map (fst \<circ> snd) (map (\<lambda>(t, p). (streak p, delta p, score p)) (players s)) = [909, 0]"
    by simp
  then have "map (\<lambda>(t, p). delta p) (players s) = [909, 0]"
    by (simp add: comp_def case_prod_unfold)
  then have "\<exists>a s. endRound (actorOf streakRoom) streakRoom = Returned a \<and> cache a = Some s \<and>
      map (\<lambda>(t, p). delta p) (players s) = [909, 0]"
    using run s by (intro exI [of _ a] exI [of _ s]) simp
  with d show ?thesis by (intro conjI)
qed

section \<open>The alarm\<close>

lemma getState_loaded:
  "fst (getState a) = Some s \<Longrightarrow>
   cache (snd (getState a)) = Some s \<and> stored (snd (getState a)) = stored a \<and>
   alarmAt (snd (getState a)) = alarmAt a \<and> sent (snd (getState a)) = sent a \<and>
   wsRateMap (snd (getState a)) = wsRateMap a"
  by (auto simp add: getState_def split: option.splits)

lemma getState_cached: "cache a = Some s \<Longrightarrow> getState a = (Some s, a)"
  by (simp add: getState_def)

text \<open>
  What the handler does with the room loaded: it ignores a firing while a round exists
  and is paused, and with no round it deletes the stored state, whatever \<open>started\<close> is.
\<close>

lemma alarm_cases:
  assumes "fst (getState a) = Some s"
  shows "(roundS s \<noteq> None \<and> paused s \<longrightarrow>
            (\<exists>a'. alarm a = Returned a' \<and> cache a' = Some s \<and> stored a' = stored a \<and>
                  alarmAt a' = alarmAt a \<and> sent a' = sent a \<and> wsRateMap a' = wsRateMap a) \<and>
            (cache a = Some s \<longrightarrow> alarm a = Returned a)) \<and>
         (roundS s = None \<longrightarrow>
            (\<exists>a'. alarm a = Returned a' \<and> cache a' = None \<and> stored a' = None))"
proof -
  obtain a0 where g: "getState a = (Some s, a0)"
    using assms by (cases "getState a") simp
  have a0: "cache a0 = Some s \<and> stored a0 = stored a \<and> alarmAt a0 = alarmAt a \<and>
            sent a0 = sent a \<and> wsRateMap a0 = wsRateMap a"
    using getState_loaded [OF assms] g by simp
  have same: "a0 = a" if "cache a = Some s"
    using getState_cached [OF that] g by simp
  show ?thesis
    using g a0 same by (auto simp add: alarm_def)
qed

text \<open>
  C2, at a concrete room. The first round has closed (no round, no alarm scheduled)
  and the game is in progress, with a second question to come. An alarm that fires
  now is not ignored: the handler takes the branch of the post-game cleanup, although
  the game is not over, and deletes the room, so that the status check no longer finds
  it. The same happens at the end of a run of events in which Bob's answer closes the
  first round early and cancels its alarm. In the paused room the handler does ignore
  the firing.
\<close>

theorem stale_alarm_purges_running_game:
  "started revealRoom \<and> roundS revealRoom = None \<and>
   questionAt (revealRoom\<lparr>currentIndex := currentIndex revealRoom + 1\<rparr>) = Some q2 \<and>
   alarmAt (actorOf revealRoom) = None \<and>
   alarm (actorOf revealRoom) = Returned ((actorOf revealRoom)\<lparr>cache := None, stored := None\<rparr>) \<and>
   fst (statusCheck ((actorOf revealRoom)\<lparr>cache := None, stored := None\<rparr>)) =
     StatusError ''Room not found.'' \<and>
   (case onPlayerAnswer lockedActor lockedRoom ''player-2'' (Some ''q1'') (Some ''a'') 9000 of
      Returned a \<Rightarrow>
        alarmAt a = None \<and> map_option started (stored a) = Some True \<and>
        map_option roundS (stored a) = Some None \<and>
        (case alarm a of Returned a' \<Rightarrow> stored a' = None \<and> cache a' = None | _ \<Rightarrow> False)
    | _ \<Rightarrow> False) \<and>
   paused pausedRoom \<and> alarm (actorOf pausedRoom) = Returned (actorOf pausedRoom)"
  by code_simp

theorem stale_alarm_purges_running_game_witness:
  "started revealRoom \<and> roundS revealRoom = None \<and>
   (\<exists>a'. alarm (actorOf revealRoom) = Returned a' \<and> cache a' = None \<and> stored a' = None \<and>
      fst (statusCheck a') = StatusError ''Room not found.'')"
proof -
  from stale_alarm_purges_running_game
  have s: "started revealRoom" and r: "roundS revealRoom = None"
    and run: "alarm (actorOf revealRoom) =
                Returned ((actorOf revealRoom)\<lparr>cache := None, stored := None\<rparr>)"
    and st: "fst (statusCheck ((actorOf revealRoom)\<lparr>cache := None, stored := None\<rparr>)) =
               StatusError ''Room not found.''"
    by simp_all
  have "\<exists>a'. alarm (actorOf revealRoom) = Returned a' \<and> cache a' = None \<and> stored a' = None \<and>
      fst (statusCheck a') = StatusError ''Room not found.''"
    using run st by (intro exI [of _ "(actorOf revealRoom)\<lparr>cache := None, stored := None\<rparr>"]) simp
  with s r show ?thesis by (intro conjI)
qed

section \<open>After the game is over\<close>

lemma endGame_result:
  "endGame a s now =
     Returned (saveState ((emit Broadcast (GameOver (getLeaderboard s)) a)\<lparr>alarmAt := Some (now + 60000)\<rparr>)
                 (s\<lparr>started := False\<rparr>))"
  by (simp add: endGame_def Let_def)

lemma questionAt_past_end:
  "int (length (questions s)) \<le> currentIndex s \<Longrightarrow> questionAt s = None"
  by (simp add: questionAt_def)

lemma answer_without_question:
  "questionAt s = None \<Longrightarrow> onPlayerAnswer a s w qi oi now = Returned a"
  by (simp add: onPlayerAnswer_def split: option.splits)

lemma game_over_by_host_next:
  "onHostNext (actorOf lastRoom) lastRoom ''host'' None 50000 = Returned gameOverActor"
  by code_simp

text \<open>
  C3, at a concrete room. The host advances past the last question: the game is over,
  the room is marked as not started and \<open>game:over\<close> is broadcast. A \<open>player:join\<close>
  that arrives afterwards is not blocked: it takes the lobby path, adds a third player
  to the room, saves the state and acknowledges the join, and the status check reports
  the room as open. A \<open>player:answer\<close> that arrives afterwards changes nothing.
\<close>

theorem join_after_game_over_adds_player:
  "onHostNext (actorOf lastRoom) lastRoom ''host'' None 50000 = Returned gameOverActor \<and>
   cache gameOverActor = Some gameOverRoom \<and> \<not> started gameOverRoom \<and>
   map fst (players gameOverRoom) = [''player-1'', ''player-2''] \<and>
   onPlayerJoin gameOverActor gameOverRoom ''player-3'' (Some ''Carol'') None (Some 7) ''token-carol'' =
     Returned
       (gameOverActor
          \<lparr>cache := Some (gameOverRoom\<lparr>players := players gameOverRoom @
                                         [(''player-3'', newPlayer ''Carol'' ''token-carol'')]\<rparr>),
           stored := Some (gameOverRoom\<lparr>players := players gameOverRoom @
                                          [(''player-3'', newPlayer ''Carol'' ''token-carol'')]\<rparr>),
           sent := sent gameOverActor @
                   [(ToSocket ''player-3'', Ack 7 (AckJoined ''ABC234'' ''Sums'' 2 ''token-carol'')),
                    (Broadcast, LobbyUpdate [''Alice'', ''Bob'', ''Carol''] ''ABC234'' ''Sums'')]\<rparr>) \<and>
   onPlayerAnswer gameOverActor gameOverRoom ''player-1'' (Some ''q2'') (Some ''a'') 51000 =
     Returned gameOverActor \<and>
   fst (statusCheck gameOverActor) = StatusOk ''Sums''"
  by code_simp

theorem join_after_game_over_adds_player_witness:
  "\<not> started gameOverRoom \<and>
   (\<exists>a' s'. onPlayerJoin gameOverActor gameOverRoom ''player-3'' (Some ''Carol'') None (Some 7)
               ''token-carol'' = Returned a' \<and>
      cache a' = Some s' \<and> map fst (players s') = [''player-1'', ''player-2'', ''player-3''])"
  using join_after_game_over_adds_player
  by (simp add: gameOverRoom_def lastRoom_def lobbyRoom_def)

section \<open>Answers\<close>

lemma answer_accepted:
  fixes a s w optionId now r p
  defines "S \<equiv> s\<lparr>players := AList.update w (p\<lparr>selectedOptionId := optionId, answeredAtMs := Some now\<rparr>) (players s),
                   roundS := Some (r\<lparr>awaiting := filter (\<lambda>t. t \<noteq> w) (awaiting r)\<rparr>)\<rparr>"
  defines "A \<equiv> toHost S (RoundProgress (length (filter (\<lambda>pl. selectedOptionId pl \<noteq> None) (map snd (players S))))
                                          (length (players S)))
                  (emit (ToTag w) (PlayerLocked optionId) a)"
  assumes "roundS s = Some r" and "\<not> paused s" and "map_of (players s) w = Some p"
    and "questionAt s = Some q" and "Some (qid q) = questionId" and "selectedOptionId p = None"
    and "truthy optionId" and "list_ex (\<lambda>opt. Some (oid opt) = optionId) (options q)"
  shows "onPlayerAnswer a s w questionId optionId now =
           (if filter (\<lambda>t. t \<noteq> w) (awaiting r) = []
            then endRound (saveState (A\<lparr>alarmAt := None\<rparr>) S) S
            else Returned (saveState A S))"
  using assms(3-) by (simp add: onPlayerAnswer_def Let_def S_def A_def)

lemma answer_ignored:
  assumes "\<not> (\<exists>r q p. roundS s = Some r \<and> \<not> paused s \<and> questionAt s = Some q \<and>
               Some (qid q) = questionId \<and> map_of (players s) w = Some p \<and>
               selectedOptionId p = None \<and> (\<exists>opt \<in> set (options q). Some (oid opt) = optionId))"
  shows "onPlayerAnswer a s w questionId optionId now = Returned a"
  using assms by (auto simp add: onPlayerAnswer_def Let_def list_ex_iff split: option.splits)

lemma questionAt_players [simp]: "questionAt (s\<lparr>players := ps\<rparr>) = questionAt s"
  and questionAt_roundS [simp]: "questionAt (s\<lparr>roundS := r\<rparr>) = questionAt s"
  and questionAt_disconnectedPlayers [simp]:
    "questionAt (s\<lparr>disconnectedPlayers := d\<rparr>) = questionAt s"
  by (simp_all add: questionAt_def)

lemma answer_changes_only_when_accepted:
  assumes "onPlayerAnswer a s w questionId optionId now \<noteq> Returned a"
  obtains r q p where "roundS s = Some r" "\<not> paused s" "questionAt s = Some q"
    "Some (qid q) = questionId" "map_of (players s) w = Some p" "selectedOptionId p = None"
    "truthy optionId" "list_ex (\<lambda>opt. Some (oid opt) = optionId) (options q)"
  using assms by (auto simp add: onPlayerAnswer_def Let_def split: option.splits if_splits)

lemma truthy_Some: "truthy x \<Longrightarrow> x \<noteq> None"
  by (cases x) (simp_all add: truthy_def)

lemma answer_locked_once:
  assumes "onPlayerAnswer a s w questionId optionId now = Returned a1" and "a1 \<noteq> a"
  shows "\<exists>s1. cache a1 = Some s1 \<and>
           (\<forall>qi oi t. onPlayerAnswer a1 s1 w qi oi t = Returned a1)"
proof -
  from assms have "onPlayerAnswer a s w questionId optionId now \<noteq> Returned a" by auto
  then obtain r q p where c: "roundS s = Some r" "\<not> paused s" "questionAt s = Some q"
    "Some (qid q) = questionId" "map_of (players s) w = Some p" "selectedOptionId p = None"
    "truthy optionId" "list_ex (\<lambda>opt. Some (oid opt) = optionId) (options q)"
    by (rule answer_changes_only_when_accepted)
  let ?p1 = "p\<lparr>selectedOptionId := optionId, answeredAtMs := Some now\<rparr>"
  let ?r1 = "r\<lparr>awaiting := filter (\<lambda>t. t \<noteq> w) (awaiting r)\<rparr>"
  let ?S = "s\<lparr>players := AList.update w ?p1 (players s), roundS := Some ?r1\<rparr>"
  let ?A = "toHost ?S (RoundProgress (length (filter (\<lambda>pl. selectedOptionId pl \<noteq> None) (map snd (players ?S))))
                                          (length (players ?S)))
                  (emit (ToTag w) (PlayerLocked optionId) a)"
  have run: "onPlayerAnswer a s w questionId optionId now =
           (if filter (\<lambda>t. t \<noteq> w) (awaiting r) = []
            then endRound (saveState (?A\<lparr>alarmAt := None\<rparr>) ?S) ?S
            else Returned (saveState ?A ?S))"
    by (rule answer_accepted [OF c(1) c(2) c(5) c(3) c(4) c(6) c(7) c(8)])
  show ?thesis
  proof (cases "filter (\<lambda>t. t \<noteq> w) (awaiting r) = []")
    case False
    with run assms(1) have a1: "a1 = saveState ?A ?S" by simp
    have "onPlayerAnswer a1 ?S w qi oi t = Returned a1" for qi oi t
      using c(2,3,7) by (simp add: onPlayerAnswer_def update_conv' truthy_Some)
    with a1 show ?thesis by simp
  next
    case True
    have "endRound (saveState (?A\<lparr>alarmAt := None\<rparr>) ?S) ?S = Returned a1"
      using run assms(1) True by simp
    then obtain s2 where a1: "cache a1 = Some s2" and n: "roundS s2 = None"
      using endRound_Returned [of ?S ?r1 "saveState (?A\<lparr>alarmAt := None\<rparr>) ?S" a1] by auto
    have "onPlayerAnswer a1 s2 w qi oi t = Returned a1" for qi oi t
      using n by (simp add: onPlayerAnswer_def)
    with a1 show ?thesis by blast
  qed
qed

text \<open>
  C4. A \<open>player:answer\<close> leaves the actor exactly as it was (state, storage, alarm,
  messages) unless a round is open and not paused, the question identifier is that of
  the current question, the sender is a player who has not chosen an option in this
  round, and the option identifier is one of the current question's options. And when
  an answer has been taken (the handler returned with a changed actor), every further
  \<open>player:answer\<close> from the same connection, for any question and option, leaves the
  actor as the first answer left it: scores and deltas included.
\<close>

theorem answer_ignored_unless_open_and_unanswered:
  "(\<not> (\<exists>r q p. roundS s = Some r \<and> \<not> paused s \<and> questionAt s = Some q \<and>
           Some (qid q) = questionId \<and> map_of (players s) w = Some p \<and>
           selectedOptionId p = None \<and> (\<exists>opt \<in> set (options q). Some (oid opt) = optionId)) \<longrightarrow>
      onPlayerAnswer a s w questionId optionId now = Returned a) \<and>
   (\<forall>a1. onPlayerAnswer a s w questionId optionId now = Returned a1 \<and> a1 \<noteq> a \<longrightarrow>
      (\<exists>s1. cache a1 = Some s1 \<and>
         (\<forall>qi oi t. onPlayerAnswer a1 s1 w qi oi t = Returned a1)))"
  using answer_ignored [of s questionId w optionId a now]
    answer_locked_once [of a s w questionId optionId now]
  by blast

theorem answer_ignored_unless_open_and_unanswered_witness:
  "paused pausedRoom \<and>
   onPlayerAnswer (actorOf pausedRoom) pausedRoom ''player-1'' (Some ''q1'') (Some ''b'') 5000 =
     Returned (actorOf pausedRoom) \<and>
   onPlayerAnswer roundActor roundRoom ''player-1'' (Some ''q1'') (Some ''b'') 5000 =
     Returned lockedActor \<and>
   lockedActor \<noteq> roundActor \<and> cache lockedActor = Some lockedRoom \<and>
   onPlayerAnswer lockedActor lockedRoom ''player-1'' (Some ''q1'') (Some ''a'') 6000 =
     Returned lockedActor"
proof -
  have p: "paused pausedRoom"
    by (simp add: pausedRoom_def)
  then have "\<not> (\<exists>r q p. roundS pausedRoom = Some r \<and> \<not> paused pausedRoom \<and>
      questionAt pausedRoom = Some q \<and> Some (qid q) = Some ''q1'' \<and>
      map_of (players pausedRoom) ''player-1'' = Some p \<and> selectedOptionId p = None \<and>
      (\<exists>opt \<in> set (options q). Some (oid opt) = Some ''b''))"
    by simp
  with answer_ignored_unless_open_and_unanswered
    [of pausedRoom "Some ''q1''" "''player-1''" "Some ''b''" "actorOf pausedRoom" 5000]
  have one: "onPlayerAnswer (actorOf pausedRoom) pausedRoom ''player-1'' (Some ''q1'') (Some ''b'') 5000 =
     Returned (actorOf pausedRoom)"
    by blast
  have run: "onPlayerAnswer roundActor roundRoom ''player-1'' (Some ''q1'') (Some ''b'') 5000 =
     Returned lockedActor"
    by code_simp
  have ne: "lockedActor \<noteq> roundActor"
    by code_simp
  have c: "cache lockedActor = Some lockedRoom"
    by (simp add: lockedActor_def)
  from answer_ignored_unless_open_and_unanswered
    [of roundRoom "Some ''q1''" "''player-1''" "Some ''b''" roundActor 5000] run ne
  obtain s1 where "cache lockedActor = Some s1"
    and "\<forall>qi oi t. onPlayerAnswer lockedActor s1 ''player-1'' qi oi t = Returned lockedActor"
    by blast
  with c have two: "onPlayerAnswer lockedActor lockedRoom ''player-1'' (Some ''q1'') (Some ''a'') 6000 =
     Returned lockedActor"
    by simp
  from p one run ne c two show ?thesis by (intro conjI)
qed

lemma example_last_answer:
  "(case onPlayerAnswer lockedActor lockedRoom ''player-2'' (Some ''q1'') (Some ''a'') 9000 of
      Returned a \<Rightarrow>
        (case cache a of
           Some s \<Rightarrow> map (\<lambda>(t, p). (delta p, score p)) (players s) = [(900, 900), (0, 0)]
         | None \<Rightarrow> False)
    | _ \<Rightarrow> False)"
  by code_simp

text \<open>
  The answer that leaves nobody awaited closes the round in the same event, unless the
  tables of \<open>endRound\<close> stop it: no option of the question is named \<open>__proto__\<close> and
  no player holds an inherited key that is no option of the question.
\<close>

lemma last_answer_closes_unless_thrown:
  assumes "roundS s = Some r" and "\<not> paused s" and "map_of (players s) w = Some p"
    and "questionAt s = Some q" and "Some (qid q) = questionId" and "selectedOptionId p = None"
    and "truthy optionId" and "list_ex (\<lambda>opt. Some (oid opt) = optionId) (options q)"
    and "filter (\<lambda>t. t \<noteq> w) (awaiting r) = []"
    and "\<not> list_ex (\<lambda>opt. oid opt = ''__proto__'') (options q)"
    and "\<not> list_ex (pushThrows q)
            (map snd (AList.update w (p\<lparr>selectedOptionId := optionId, answeredAtMs := Some now\<rparr>)
                        (players s)))"
  shows "\<exists>a' s' rv. onPlayerAnswer a s w questionId optionId now = Returned a' \<and>
           alarmAt a' = None \<and> cache a' = Some s' \<and> stored a' = Some s' \<and> roundS s' = None \<and>
           players s' =
             map (\<lambda>(t, p). (t, scorePlayer q (endMs r) p))
               (AList.update w (p\<lparr>selectedOptionId := optionId, answeredAtMs := Some now\<rparr>) (players s)) \<and>
           (Broadcast, QuestionReveal rv) \<in> set (sent a')"
proof -
  let ?p1 = "p\<lparr>selectedOptionId := optionId, answeredAtMs := Some now\<rparr>"
  let ?r1 = "r\<lparr>awaiting := filter (\<lambda>t. t \<noteq> w) (awaiting r)\<rparr>"
  let ?S = "s\<lparr>players := AList.update w ?p1 (players s), roundS := Some ?r1\<rparr>"
  let ?A = "toHost ?S (RoundProgress (length (filter (\<lambda>pl. selectedOptionId pl \<noteq> None) (map snd (players ?S))))
                                          (length (players ?S)))
                  (emit (ToTag w) (PlayerLocked optionId) a)"
  have run: "onPlayerAnswer a s w questionId optionId now =
           endRound (saveState (?A\<lparr>alarmAt := None\<rparr>) ?S) ?S"
    using answer_accepted [OF assms(1-8), of a now] assms(9) by simp
  have q: "questionAt ?S = Some q" using assms(4) by simp
  have r: "roundS ?S = Some ?r1" by simp
  have t: "\<not> list_ex (pushThrows q) (map snd (players ?S))"
    using assms(11) by simp
  show ?thesis
    unfolding run endRound_closes [OF r q assms(10) t]
    by (auto simp add: toHost_def split: option.splits)
qed


text \<open>
  The room in which Bob is back with his old option is reached from the lobby: the game
  starts, Bob chooses the option \<open>constructor\<close> of the first question and disconnects,
  Alice's answer closes the first round, the host opens the second question and Bob
  rejoins.
\<close>

lemma carried_room_reached:
  "(case andThen (andThen (andThen (andThen (andThen
           (onHostStart (actorOf lobbyRoomC) lobbyRoomC ''host'' None 1000)
           (\<lambda>a s. onPlayerAnswer a s ''player-2'' (Some ''q1'') (Some ''constructor'') 5000))
           (\<lambda>a s. webSocketClose a ''player-2''))
           (\<lambda>a s. onPlayerAnswer a s ''player-1'' (Some ''q1'') (Some ''b'') 7000))
           (\<lambda>a s. onHostNext a s ''host'' None 30000))
           (\<lambda>a s. onPlayerJoin a s ''player-7'' (Some ''Bob'') (Some ''token-bob'') None ''uuid'') of
      Returned a \<Rightarrow>
        cache a = Some carriedRoom \<and> stored a = Some carriedRoom \<and> alarmAt a = Some 50000
    | _ \<Rightarrow> False)"
  by code_simp

text \<open>
  C5, at a concrete room. The second question is open and Alice is the only player
  awaited; Bob has rejoined with the option \<open>constructor\<close> that he chose in the first
  round, which is no option of the second question. Alice's answer is taken and
  empties the awaiting list. The handler cancels the alarm and saves the answer, but
  the round does not end: \<open>endRound\<close> throws at the table of choosers, after the scoring
  loop and before the reveal. The round is still set in memory and in storage, the
  scores are in memory only, no reveal is sent and no alarm is left to close the round.
\<close>

theorem last_answer_leaves_round_open:
  "roundS carriedRoom = Some \<lparr>startMs = 30000, endMs = 50000, awaiting = [''player-1''],
                              msRemaining = None\<rparr> \<and>
   paused carriedRoom = False \<and> questionAt carriedRoom = Some q2 \<and>
   map_of (players carriedRoom) ''player-1'' = Some (alice\<lparr>score := 850, streak := 1\<rparr>) \<and>
   map_of (players carriedRoom) ''player-7'' = Some bobCarried \<and>
   pushThrows q2 bobCarried \<and>
   onPlayerAnswer carriedActor carriedRoom ''player-1'' (Some ''q2'') (Some ''a'') 31000 =
     Threw TypeError
       \<lparr>cache = Some (carriedRoom
           \<lparr>players := [(''player-1'', alice\<lparr>score := 1922, streak := 2, delta := 1072,
                                              lastCorrect := True, selectedOptionId := Some ''a'',
                                              answeredAtMs := Some 31000\<rparr>),
                        (''player-7'', bobCarried)],
            roundS := Some \<lparr>startMs = 30000, endMs = 50000, awaiting = [],
                            msRemaining = None\<rparr>\<rparr>),
        stored = Some (carriedRoom
           \<lparr>players := [(''player-1'', alice\<lparr>score := 850, streak := 1,
                                              selectedOptionId := Some ''a'',
                                              answeredAtMs := Some 31000\<rparr>),
                        (''player-7'', bobCarried)],
            roundS := Some \<lparr>startMs = 30000, endMs = 50000, awaiting = [],
                            msRemaining = None\<rparr>\<rparr>),
        alarmAt = None,
        sent = [(ToTag ''player-1'', PlayerLocked (Some ''a'')), (ToTag ''host'', RoundProgress 2 2)],
        wsRateMap = []\<rparr>"
  by code_simp

theorem last_answer_leaves_round_open_witness:
  "\<exists>e a s. onPlayerAnswer carriedActor carriedRoom ''player-1'' (Some ''q2'') (Some ''a'') 31000 =
             Threw e a \<and>
     stored a = Some s \<and> alarmAt a = None \<and>
     roundS s = Some \<lparr>startMs = 30000, endMs = 50000, awaiting = [], msRemaining = None\<rparr>"
  using last_answer_leaves_round_open by simp

section \<open>The host leaves\<close>

text \<open>
  C6. Whenever the room exists, in whatever phase, the close of a connection tagged
  \<open>host\<close> returns at once with \<open>game:cancelled\<close> broadcast as the one new message and
  with the state gone from memory and from storage, so that the status check that
  follows answers \<open>Room not found.\<close>
\<close>

theorem host_close_tears_down:
  assumes "fst (getState a) = Some s"
  shows "\<exists>a'. webSocketClose a ''host'' = Returned a' \<and>
           sent a' = sent a @ [(Broadcast, GameCancelled)] \<and>
           cache a' = None \<and> stored a' = None \<and>
           fst (statusCheck a') = StatusError ''Room not found.''"
proof -
  obtain a0 where g: "getState a = (Some s, a0)"
    using assms by (cases "getState a") simp
  have s0: "sent a0 = sent a"
    using getState_loaded [OF assms] g by simp
  let ?a' = "(emit Broadcast GameCancelled a0)\<lparr>cache := None, stored := None\<rparr>"
  have "webSocketClose a ''host'' = Returned ?a'"
    using g by (simp add: webSocketClose_def)
  moreover have "sent ?a' = sent a @ [(Broadcast, GameCancelled)]"
    using s0 by simp
  moreover have "fst (statusCheck ?a') = StatusError ''Room not found.''"
    by (simp add: statusCheck_def getState_def)
  ultimately show ?thesis by simp
qed

theorem host_close_tears_down_witness:
  "fst (getState (actorOf lobbyRoom)) = Some lobbyRoom \<and> started lobbyRoom = False \<and>
   fst (getState roundActor) = Some roundRoom \<and> roundS roundRoom \<noteq> None \<and>
   fst (getState (actorOf revealRoom)) = Some revealRoom \<and> started revealRoom \<and>
   (\<exists>a'. webSocketClose (actorOf lobbyRoom) ''host'' = Returned a' \<and>
      sent a' = sent (actorOf lobbyRoom) @ [(Broadcast, GameCancelled)] \<and>
      cache a' = None \<and> stored a' = None \<and>
      fst (statusCheck a') = StatusError ''Room not found.'') \<and>
   (\<exists>a'. webSocketClose roundActor ''host'' = Returned a' \<and>
      sent a' = sent roundActor @ [(Broadcast, GameCancelled)] \<and>
      cache a' = None \<and> stored a' = None \<and>
      fst (statusCheck a') = StatusError ''Room not found.'') \<and>
   (\<exists>a'. webSocketClose (actorOf revealRoom) ''host'' = Returned a' \<and>
      sent a' = sent (actorOf revealRoom) @ [(Broadcast, GameCancelled)] \<and>
      cache a' = None \<and> stored a' = None \<and>
      fst (statusCheck a') = StatusError ''Room not found.'')"
proof -
  have l: "fst (getState (actorOf lobbyRoom)) = Some lobbyRoom"
    by (simp add: getState_def actorOf_def)
  have l': "started lobbyRoom = False"
    by (simp add: lobbyRoom_def)
  have r: "fst (getState roundActor) = Some roundRoom"
    by (simp add: getState_def roundActor_def actorOf_def)
  have r': "roundS roundRoom \<noteq> None"
    by (simp add: roundRoom_def)
  have v: "fst (getState (actorOf revealRoom)) = Some revealRoom"
    by (simp add: getState_def actorOf_def)
  have v': "started revealRoom"
    by (simp add: revealRoom_def roundRoom_def lobbyRoom_def)
  from l l' r r' v v' host_close_tears_down [OF l] host_close_tears_down [OF r]
    host_close_tears_down [OF v]
  show ?thesis by (intro conjI)
qed

section \<open>Players leave and come back\<close>

lemma getProp_own: "map_of obj k = Some v \<Longrightarrow> getProp obj k = Own v"
  by (simp add: getProp_def)

lemma player_close_keeps_snapshot:
  assumes "fst (getState a) = Some s" and "started s" and "map_of (players s) w = Some p"
    and "w \<noteq> ''host''" and "name p \<noteq> ''__proto__''"
  shows "\<exists>a' s'. webSocketClose a w = Returned a' \<and> cache a' = Some s' \<and> stored a' = Some s' \<and>
           map_of (disconnectedPlayers s') (name p) = Some p \<and> map_of (players s') w = None"
proof -
  obtain a0 where g: "getState a = (Some s, a0)"
    using assms(1) by (cases "getState a") simp
  show ?thesis
    using g assms(2-) by (simp add: webSocketClose_def Let_def update_conv' delete_conv')
qed

lemma rejoin_restores:
  assumes "started s" and "sanitizeName n = k" and "n \<noteq> []" and "k \<noteq> []"
    and "map_of (disconnectedPlayers s) k = Some disc"
    and "rejoinToken disc = [] \<or> tok = Some (rejoinToken disc)"
  shows "onPlayerJoin a s w (Some n) tok reqId uuid =
           Returned (broadcastLobby
             (s\<lparr>disconnectedPlayers := AList.delete k (disconnectedPlayers s),
                players := AList.update w disc (players s)\<rparr>)
             (emit (ToSocket w) (GameStarted (title s))
               (ack w reqId (AckReconnected (gid s) (title s) (rejoinToken disc))
                 (saveState a
                    (s\<lparr>disconnectedPlayers := AList.delete k (disconnectedPlayers s),
                       players := AList.update w disc (players s)\<rparr>)))))"
  using assms by (auto simp add: onPlayerJoin_def Let_def truthy_def getProp_own)

lemma rejoin_wrong_token:
  assumes "started s" and "sanitizeName n = k" and "n \<noteq> []" and "k \<noteq> []"
    and "map_of (disconnectedPlayers s) k = Some disc"
    and "rejoinToken disc \<noteq> []" and "tok \<noteq> Some (rejoinToken disc)"
  shows "onPlayerJoin a s w (Some n) tok reqId uuid =
           Returned (ack w reqId (AckError ''Invalid rejoin credentials.'') a)"
  using assms by (simp add: onPlayerJoin_def Let_def truthy_def getProp_own)

lemma rejoin_without_snapshot:
  assumes "started s" and "sanitizeName n = k" and "n \<noteq> []" and "k \<noteq> []"
    and "map_of (disconnectedPlayers s) k = None" and "k \<notin> set objectPrototypeKeys"
  shows "onPlayerJoin a s w (Some n) tok reqId uuid =
           Returned (ack w reqId (AckError ''Game already started.'') a)"
  using assms by (simp add: onPlayerJoin_def Let_def truthy_def getProp_def)

text \<open>
  C7, at a concrete room. The game has started and nobody has disconnected, so there is
  no snapshot under any name. A \<open>player:join\<close> with the name \<open>constructor\<close> (which
  \<open>sanitizeName\<close> returns as it is) is not rejected: the lookup of the name among the
  disconnected players yields the property that every object inherits, which is truthy
  and carries no rejoin token, and the handler stores a player without fields under the
  new connection and acknowledges a reconnect.
\<close>

theorem join_without_snapshot_admitted:
  "started roundRoom \<and> disconnectedPlayers roundRoom = [] \<and>
   sanitizeName ''constructor'' = ''constructor'' \<and>
   getProp (disconnectedPlayers roundRoom) ''constructor'' = (Inherited :: Player property) \<and>
   onPlayerJoin roundActor roundRoom ''player-9'' (Some ''constructor'') None (Some 3) ''uuid'' =
     Beyond EmptyPlayerStored roundActor"
  by code_simp

section \<open>Opening a question\<close>

lemma startQuestion_opens:
  assumes "currentIndex s + 1 = int i" and "i < length (questions s)"
  shows "startQuestion a s img now =
     Returned (emit Broadcast
        (QuestionShow (safeQOf (s\<lparr>currentIndex := int i\<rparr>) (questions s ! i) img))
        (saveState (a\<lparr>alarmAt := Some (now + timeLimitSeconds (questions s ! i) * 1000)\<rparr>)
           (s\<lparr>currentIndex := int i,
              players := map (\<lambda>(t, p). (t, resetPlayer p)) (players s),
              paused := False,
              roundS := Some \<lparr>startMs = now,
                              endMs = now + timeLimitSeconds (questions s ! i) * 1000,
                              awaiting = map fst (players s), msRemaining = None\<rparr>\<rparr>)))"
  using assms
  by (simp add: startQuestion_def questionAt_def Let_def safeQOf_def case_prod_unfold comp_def)


lemma safeQOf_hides:
  assumes "q'\<lparr>correctOptionIds := []\<rparr> = q\<lparr>correctOptionIds := []\<rparr>"
    and "currentIndex s' = currentIndex s" and "length (questions s') = length (questions s)"
  shows "safeQOf s' q' img = safeQOf s q img"
proof -
  have "f (q'\<lparr>correctOptionIds := []\<rparr>) = f (q\<lparr>correctOptionIds := []\<rparr>)" for f :: "QuizQuestion \<Rightarrow> 'b"
    using assms(1) by simp
  from this [of qid] this [of qtext] this [of imageUrl] this [of timeLimitSeconds] this [of options]
  show ?thesis using assms(2,3) by (simp add: safeQOf_def)
qed

text \<open>
  C8. When a round opens, the only message sent is the \<open>question:show\<close> broadcast, and
  it is the same in any two states that agree on everything but the correct-answer
  identifiers of their questions.
\<close>

theorem question_show_hides_correct_ids:
  assumes "map (\<lambda>q. q\<lparr>correctOptionIds := []\<rparr>) qs' = map (\<lambda>q. q\<lparr>correctOptionIds := []\<rparr>) (questions s)"
    and "currentIndex s + 1 = int i" and "i < length (questions s)"
  shows "\<exists>sq a1 a2. startQuestion a s img now = Returned a1 \<and>
           startQuestion a (s\<lparr>questions := qs'\<rparr>) img now = Returned a2 \<and>
           sent a1 = sent a @ [(Broadcast, QuestionShow sq)] \<and>
           sent a2 = sent a @ [(Broadcast, QuestionShow sq)]"
proof -
  let ?s' = "s\<lparr>questions := qs'\<rparr>"
  have len: "length qs' = length (questions s)"
    using assms(1) by (rule map_eq_imp_length_eq)
  have "map (\<lambda>q. q\<lparr>correctOptionIds := []\<rparr>) qs' ! i =
        map (\<lambda>q. q\<lparr>correctOptionIds := []\<rparr>) (questions s) ! i"
    using assms(1) by simp
  then have nth: "(qs' ! i)\<lparr>correctOptionIds := []\<rparr> = (questions s ! i)\<lparr>correctOptionIds := []\<rparr>"
    using assms(3) len by simp
  have same: "safeQOf (?s'\<lparr>currentIndex := int i\<rparr>) (qs' ! i) img =
              safeQOf (s\<lparr>currentIndex := int i\<rparr>) (questions s ! i) img"
    using nth len by (intro safeQOf_hides) simp_all
  have i': "currentIndex ?s' + 1 = int i" "i < length (questions ?s')"
    using assms(2,3) len by simp_all
  show ?thesis
    unfolding startQuestion_opens [OF assms(2,3)] startQuestion_opens [OF i']
    using same by simp
qed

theorem question_show_hides_correct_ids_witness:
  "map (\<lambda>q. q\<lparr>correctOptionIds := []\<rparr>) [q1, q2\<lparr>correctOptionIds := [''b'']\<rparr>] =
     map (\<lambda>q. q\<lparr>correctOptionIds := []\<rparr>) (questions revealRoom) \<and>
   currentIndex revealRoom + 1 = int 1 \<and> 1 < length (questions revealRoom) \<and>
   (\<exists>sq a1 a2. startQuestion (actorOf revealRoom) revealRoom None 30000 = Returned a1 \<and>
      startQuestion (actorOf revealRoom)
        (revealRoom\<lparr>questions := [q1, q2\<lparr>correctOptionIds := [''b'']\<rparr>]\<rparr>) None 30000 = Returned a2 \<and>
      sent a1 = sent (actorOf revealRoom) @ [(Broadcast, QuestionShow sq)] \<and>
      sent a2 = sent (actorOf revealRoom) @ [(Broadcast, QuestionShow sq)])"
proof -
  have h1: "map (\<lambda>q. q\<lparr>correctOptionIds := []\<rparr>) [q1, q2\<lparr>correctOptionIds := [''b'']\<rparr>] =
     map (\<lambda>q. q\<lparr>correctOptionIds := []\<rparr>) (questions revealRoom)"
    by (simp add: revealRoom_def roundRoom_def lobbyRoom_def)
  have h2: "currentIndex revealRoom + 1 = int 1"
    by (simp add: revealRoom_def roundRoom_def lobbyRoom_def)
  have h3: "1 < length (questions revealRoom)"
    by (simp add: revealRoom_def roundRoom_def lobbyRoom_def)
  from question_show_hides_correct_ids [OF h1 h2 h3, of "actorOf revealRoom" None 30000] h1 h2 h3
  show ?thesis by (intro conjI)
qed

text \<open>
  C9. \<open>host:next\<close> from any other tag than \<open>host\<close> does nothing, and from \<open>host\<close> it
  runs \<open>startQuestion\<close> whatever the phase. Whenever a next question exists, it opens
  that question: the only message is \<open>question:show\<close> (no reveal), no player's score or
  streak changes and every delta is 0 (a round that was open is dropped unscored), a
  fresh round starts with every connected player awaiting, and \<open>started\<close> stays as it
  was (false when this happens in the lobby).
\<close>

theorem host_next_has_no_phase_check:
  assumes "currentIndex s + 1 = int i" and "i < length (questions s)"
  shows "(w \<noteq> ''host'' \<longrightarrow> onHostNext a s w img now = Returned a) \<and>
         (\<exists>a' s' sq r'. onHostNext a s ''host'' img now = Returned a' \<and>
            cache a' = Some s' \<and> stored a' = Some s' \<and>
            sent a' = sent a @ [(Broadcast, QuestionShow sq)] \<and>
            currentIndex s' = int i \<and> started s' = started s \<and>
            roundS s' = Some r' \<and> startMs r' = now \<and> awaiting r' = map fst (players s) \<and>
            map (\<lambda>(t, p). (t, score p, streak p)) (players s') =
              map (\<lambda>(t, p). (t, score p, streak p)) (players s) \<and>
            list_all (\<lambda>(t, p). delta p = 0 \<and> selectedOptionId p = None) (players s'))"
proof -
  have "onHostNext a s ''host'' img now = startQuestion a s img now"
    by (simp add: onHostNext_def)
  then show ?thesis
    unfolding startQuestion_opens [OF assms]
    by (simp add: onHostNext_def resetPlayer_def case_prod_unfold comp_def list_all_iff)
qed

theorem host_next_has_no_phase_check_witness:
  "currentIndex lockedRoom + 1 = int 1 \<and> 1 < length (questions lockedRoom) \<and>
   roundS lockedRoom \<noteq> None \<and> started lockedRoom \<and>
   (\<exists>a' s' sq r'. onHostNext lockedActor lockedRoom ''host'' None 7000 = Returned a' \<and>
      cache a' = Some s' \<and> stored a' = Some s' \<and>
      sent a' = sent lockedActor @ [(Broadcast, QuestionShow sq)] \<and>
      currentIndex s' = int 1 \<and> started s' = started lockedRoom \<and>
      roundS s' = Some r' \<and> startMs r' = 7000 \<and> awaiting r' = map fst (players lockedRoom) \<and>
      map (\<lambda>(t, p). (t, score p, streak p)) (players s') =
        map (\<lambda>(t, p). (t, score p, streak p)) (players lockedRoom) \<and>
      list_all (\<lambda>(t, p). delta p = 0 \<and> selectedOptionId p = None) (players s')) \<and>
   currentIndex lobbyRoom + 1 = int 0 \<and> 0 < length (questions lobbyRoom) \<and>
   roundS lobbyRoom = None \<and> started lobbyRoom = False \<and>
   (\<exists>a' s' sq r'. onHostNext (actorOf lobbyRoom) lobbyRoom ''host'' None 500 = Returned a' \<and>
      cache a' = Some s' \<and> stored a' = Some s' \<and>
      sent a' = sent (actorOf lobbyRoom) @ [(Broadcast, QuestionShow sq)] \<and>
      currentIndex s' = int 0 \<and> started s' = started lobbyRoom \<and>
      roundS s' = Some r' \<and> startMs r' = 500 \<and> awaiting r' = map fst (players lobbyRoom) \<and>
      map (\<lambda>(t, p). (t, score p, streak p)) (players s') =
        map (\<lambda>(t, p). (t, score p, streak p)) (players lobbyRoom) \<and>
      list_all (\<lambda>(t, p). delta p = 0 \<and> selectedOptionId p = None) (players s'))"
proof -
  have h1: "currentIndex lockedRoom + 1 = int 1"
    by (simp add: lockedRoom_def roundRoom_def lobbyRoom_def)
  have h2: "1 < length (questions lockedRoom)"
    by (simp add: lockedRoom_def roundRoom_def lobbyRoom_def)
  have h3: "roundS lockedRoom \<noteq> None"
    by (simp add: lockedRoom_def)
  have h4: "started lockedRoom"
    by (simp add: lockedRoom_def roundRoom_def lobbyRoom_def)
  have k1: "currentIndex lobbyRoom + 1 = int 0"
    by (simp add: lobbyRoom_def)
  have k2: "0 < length (questions lobbyRoom)"
    by (simp add: lobbyRoom_def)
  have k3: "roundS lobbyRoom = None"
    by (simp add: lobbyRoom_def)
  have k4: "started lobbyRoom = False"
    by (simp add: lobbyRoom_def)
  note one = host_next_has_no_phase_check [OF h1 h2, of "''host''" lockedActor None 7000, THEN conjunct2]
  note two = host_next_has_no_phase_check [OF k1 k2, of "''host''" "actorOf lobbyRoom" None 500, THEN conjunct2]
  from h1 h2 h3 h4 one k1 k2 k3 k4 two show ?thesis by (intro conjI)
qed

section \<open>The awaiting list\<close>

lemma map_of_scored:
  "map_of (map (\<lambda>(t, p). (t, f p)) ps) w = map_option f (map_of ps w)"
  by (induction ps) auto

lemma rejoin_during_round:
  assumes "started s" and "roundS s = Some r" and "sanitizeName n = k" and "n \<noteq> []" and "k \<noteq> []"
    and "map_of (disconnectedPlayers s) k = Some disc"
    and "rejoinToken disc = [] \<or> tok = Some (rejoinToken disc)"
  shows "\<exists>a' s'. onPlayerJoin a s w (Some n) tok reqId uuid = Returned a' \<and>
           cache a' = Some s' \<and> stored a' = Some s' \<and>
           roundS s' = Some r \<and>
           map_of (players s') w = Some disc \<and>
           (selectedOptionId disc \<noteq> None \<longrightarrow>
              (\<forall>qi oi t. onPlayerAnswer a' s' w qi oi t = Returned a')) \<and>
           (\<forall>q. questionAt s = Some q \<longrightarrow>
              (\<exists>a'' s''. (endRound a' s' = Returned a'' \<or> endRound a' s' = Threw TypeError a'' \<or>
                          endRound a' s' = Beyond PrototypeReplaced a'') \<and>
                 cache a'' = Some s'' \<and>
                 map_of (players s'') w = Some (scorePlayer q (endMs r) disc)))"
proof -
  let ?s' = "s\<lparr>disconnectedPlayers := AList.delete k (disconnectedPlayers s),
               players := AList.update w disc (players s)\<rparr>"
  let ?a' = "broadcastLobby ?s'
             (emit (ToSocket w) (GameStarted (title s))
               (ack w reqId (AckReconnected (gid s) (title s) (rejoinToken disc))
                 (saveState a ?s')))"
  have run: "onPlayerJoin a s w (Some n) tok reqId uuid = Returned ?a'"
    using assms(1,3-) by (rule rejoin_restores)
  have c: "cache ?a' = Some ?s'" "stored ?a' = Some ?s'"
    by simp_all
  have r: "roundS ?s' = Some r"
    using assms(2) by simp
  have p: "map_of (players ?s') w = Some disc"
    by (simp add: update_conv')
  have blocked: "onPlayerAnswer ?a' ?s' w qi oi t = Returned ?a'"
    if "selectedOptionId disc \<noteq> None" for qi oi t
    using that p r by (simp add: onPlayerAnswer_def split: option.splits)
  have scored: "\<exists>a'' s''. (endRound ?a' ?s' = Returned a'' \<or> endRound ?a' ?s' = Threw TypeError a'' \<or>
                          endRound ?a' ?s' = Beyond PrototypeReplaced a'') \<and>
                 cache a'' = Some s'' \<and>
                 map_of (players s'') w = Some (scorePlayer q (endMs r) disc)"
    if "questionAt s = Some q" for q
  proof -
    have q': "questionAt ?s' = Some q"
      using that by simp
    from endRound_scores_in_memory [OF r q', of ?a']
    obtain a'' s'' where o: "endRound ?a' ?s' = Returned a'' \<or> endRound ?a' ?s' = Threw TypeError a'' \<or>
                          endRound ?a' ?s' = Beyond PrototypeReplaced a''"
      and c'': "cache a'' = Some s''"
      and ps: "players s'' = map (\<lambda>(t, p). (t, scorePlayer q (endMs r) p)) (players ?s')"
      by blast
    have "map_of (players s'') w = Some (scorePlayer q (endMs r) disc)"
      unfolding ps using p by (simp add: map_of_scored del: map_of_map)
    with o c'' show ?thesis by blast
  qed
  from run c r p blocked scored show ?thesis by blast
qed

lemma pause_keeps_awaiting:
  assumes "cache a = Some s" and "onHostPause a s w now = Returned a'" and "cache a' = Some s'"
    and "roundS s' = Some r'"
  shows "\<exists>r. roundS s = Some r \<and> startMs r' = startMs r \<and> awaiting r' = awaiting r"
  using assms by (auto simp add: onHostPause_def Let_def split: option.splits if_splits)

lemma resume_keeps_awaiting:
  assumes "cache a = Some s" and "onHostResume a s w now = Returned a'" and "cache a' = Some s'"
    and "roundS s' = Some r'"
  shows "\<exists>r. roundS s = Some r \<and> startMs r' = startMs r \<and> awaiting r' = awaiting r"
  using assms by (auto simp add: onHostResume_def Let_def split: option.splits if_splits)

lemma join_keeps_round:
  assumes "cache a = Some s" and "onPlayerJoin a s w nm tok reqId uuid = Returned a'"
    and "cache a' = Some s'"
  shows "roundS s' = roundS s"
  using assms
  by (auto simp add: onPlayerJoin_def Let_def split: option.splits if_splits property.splits)

lemma kick_keeps_round:
  assumes "cache a = Some s" and "onHostKickPlayer a s w nm = Returned a'" and "cache a' = Some s'"
  shows "roundS s' = roundS s"
  using assms
  by (auto simp add: onHostKickPlayer_def Let_def split: option.splits if_splits prod.splits)

lemma react_keeps_round:
  assumes "cache a = Some s" and "onPlayerReact a s w em = Returned a'" and "cache a' = Some s'"
  shows "roundS s' = roundS s"
  using assms
  by (auto simp add: onPlayerReact_def split: option.splits if_splits emoji.splits)

lemma answer_shrinks_awaiting:
  assumes "cache a = Some s" and "onPlayerAnswer a s w qi oi now = Returned a'"
    and "cache a' = Some s'" and "roundS s' = Some r'"
  shows "\<exists>r. roundS s = Some r \<and> startMs r' = startMs r \<and> set (awaiting r') \<subseteq> set (awaiting r)"
proof (cases "a' = a")
  case True
  with assms show ?thesis by auto
next
  case False
  with assms(2) have "onPlayerAnswer a s w qi oi now \<noteq> Returned a" by auto
  then obtain r q p where c: "roundS s = Some r" "\<not> paused s" "questionAt s = Some q"
    "Some (qid q) = qi" "map_of (players s) w = Some p" "selectedOptionId p = None"
    "truthy oi" "list_ex (\<lambda>opt. Some (oid opt) = oi) (options q)"
    by (rule answer_changes_only_when_accepted)
  let ?p1 = "p\<lparr>selectedOptionId := oi, answeredAtMs := Some now\<rparr>"
  let ?r1 = "r\<lparr>awaiting := filter (\<lambda>t. t \<noteq> w) (awaiting r)\<rparr>"
  let ?S = "s\<lparr>players := AList.update w ?p1 (players s), roundS := Some ?r1\<rparr>"
  let ?A = "toHost ?S (RoundProgress (length (filter (\<lambda>pl. selectedOptionId pl \<noteq> None) (map snd (players ?S))))
                                          (length (players ?S)))
                  (emit (ToTag w) (PlayerLocked oi) a)"
  have run: "onPlayerAnswer a s w qi oi now =
           (if filter (\<lambda>t. t \<noteq> w) (awaiting r) = []
            then endRound (saveState (?A\<lparr>alarmAt := None\<rparr>) ?S) ?S
            else Returned (saveState ?A ?S))"
    by (rule answer_accepted [OF c(1) c(2) c(5) c(3) c(4) c(6) c(7) c(8)])
  show ?thesis
  proof (cases "filter (\<lambda>t. t \<noteq> w) (awaiting r) = []")
    case False
    with run assms(2) have "a' = saveState ?A ?S" by simp
    with assms(3) have "s' = ?S" by simp
    with assms(4) c(1) show ?thesis by auto
  next
    case True
    have r: "roundS ?S = Some ?r1" by simp
    from run True assms(2)
    have "endRound (saveState (?A\<lparr>alarmAt := None\<rparr>) ?S) ?S = Returned a'" by simp
    from endRound_Returned [OF r this] assms(3)
    have "roundS s' = None" by auto
    with assms(4) show ?thesis by simp
  qed
qed

lemma close_shrinks_awaiting:
  assumes "webSocketClose a w = Returned a'" and "fst (getState a) = Some s"
    and "cache a' = Some s'" and "roundS s' = Some r'"
  shows "\<exists>r. roundS s = Some r \<and> startMs r' = startMs r \<and> set (awaiting r') \<subseteq> set (awaiting r)"
proof -
  obtain a0 where g: "getState a = (Some s, a0)"
    using assms(2) by (cases "getState a") simp
  have a0: "cache a0 = Some s"
    using getState_loaded [OF assms(2)] g by simp
  show ?thesis
    using assms(1,3,4) g a0
    by (auto simp add: webSocketClose_def Let_def split: option.splits if_splits)
qed

lemma alarm_keeps_awaiting:
  assumes "alarm a = Returned a'" and "fst (getState a) = Some s"
    and "cache a' = Some s'" and "roundS s' = Some r'"
  shows "roundS s = Some r'"
proof -
  obtain a0 where g: "getState a = (Some s, a0)"
    using assms(2) by (cases "getState a") simp
  have a0: "cache a0 = Some s"
    using getState_loaded [OF assms(2)] g by simp
  show ?thesis
  proof (cases "roundS s")
    case None
    with assms(1,3) g show ?thesis by (auto simp add: alarm_def)
  next
    case (Some r)
    show ?thesis
    proof (cases "paused s")
      case True
      with assms(1,3,4) g a0 Some show ?thesis by (auto simp add: alarm_def)
    next
      case False
      with assms(1) g Some have e: "endRound a0 s = Returned a'" by (simp add: alarm_def)
      from endRound_Returned [OF Some e] assms(3)
      have "roundS s' = None" by auto
      with assms(4) show ?thesis by simp
    qed
  qed
qed

lemma dispatch_shrinks_awaiting:
  assumes "cache a = Some s" and "dispatch a s w m reqId now uuid = Returned a'"
    and "cache a' = Some s'" and "roundS s' = Some r'"
    and "\<forall>img. m \<noteq> HostStartGame img \<and> m \<noteq> HostNext img"
  shows "\<exists>r. roundS s = Some r \<and> startMs r' = startMs r \<and> set (awaiting r') \<subseteq> set (awaiting r)"
proof (cases m)
  case HostPause
  with assms pause_keeps_awaiting [of a s w now a' s' r'] show ?thesis
    by (auto simp add: dispatch_def)
next
  case HostResume
  with assms resume_keeps_awaiting [of a s w now a' s' r'] show ?thesis
    by (auto simp add: dispatch_def)
next
  case (PlayerJoin nm tok)
  with assms join_keeps_round [of a s w nm tok reqId uuid a' s'] show ?thesis
    by (auto simp add: dispatch_def)
next
  case (PlayerAnswer qi oi)
  with assms answer_shrinks_awaiting [of a s w qi oi now a' s' r'] show ?thesis
    by (auto simp add: dispatch_def)
next
  case (PlayerReact em)
  with assms react_keeps_round [of a s w em a' s'] show ?thesis
    by (auto simp add: dispatch_def)
next
  case GameExists
  with assms show ?thesis by (auto simp add: dispatch_def)
next
  case (HostKickPlayer nm)
  with assms kick_keeps_round [of a s w nm a' s'] show ?thesis
    by (auto simp add: dispatch_def)
next
  case UnknownType
  with assms show ?thesis by (auto simp add: dispatch_def)
qed (use assms(5) in auto)

text \<open>
  C10, at a concrete room. The second question is open, Alice is the only player
  awaited and Bob is disconnected, his snapshot holding the option \<open>constructor\<close> that
  he chose in the first round. Bob rejoins: the round and its awaiting list stay as they
  are and the snapshot comes back with that option. Then Alice, the one player awaited
  when the round opened, answers. The round does not close and Bob's option is not
  scored into the stored state: \<open>endRound\<close> throws at the table of choosers, the round
  stays open in memory and in storage with nobody awaited, and no reveal is sent.
\<close>

theorem carried_option_keeps_round_open:
  "started waitingRoom \<and>
   roundS waitingRoom = Some \<lparr>startMs = 30000, endMs = 50000, awaiting = [''player-1''],
                              msRemaining = None\<rparr> \<and>
   map_of (disconnectedPlayers waitingRoom) ''Bob'' = Some bobCarried \<and>
   selectedOptionId bobCarried = Some ''constructor'' \<and>
   list_ex (\<lambda>opt. oid opt = ''constructor'') (options q2) = False \<and>
   (case onPlayerJoin waitingActor waitingRoom ''player-7'' (Some ''Bob'') (Some ''token-bob'')
           (Some 4) ''uuid'' of
      Returned a \<Rightarrow>
        cache a = Some carriedRoom \<and> stored a = Some carriedRoom \<and> alarmAt a = Some 50000 \<and>
        roundS carriedRoom = roundS waitingRoom \<and>
        map_of (players carriedRoom) ''player-7'' = Some bobCarried \<and>
        onPlayerAnswer a carriedRoom ''player-7'' (Some ''q2'') (Some ''b'') 30500 = Returned a \<and>
        (case onPlayerAnswer a carriedRoom ''player-1'' (Some ''q2'') (Some ''a'') 31000 of
           Threw e b \<Rightarrow>
             alarmAt b = None \<and>
             map_option roundS (cache b) =
               Some (Some \<lparr>startMs = 30000, endMs = 50000, awaiting = [], msRemaining = None\<rparr>) \<and>
             map_option roundS (stored b) =
               Some (Some \<lparr>startMs = 30000, endMs = 50000, awaiting = [], msRemaining = None\<rparr>) \<and>
             map_option (\<lambda>s. map (\<lambda>(t, p). (score p, lastCorrect p)) (players s)) (stored b) =
               Some [(850, False), (0, False)] \<and>
             filter (\<lambda>(t, e). case e of QuestionReveal rv \<Rightarrow> True | _ \<Rightarrow> False) (sent b) = []
         | _ \<Rightarrow> False)
    | _ \<Rightarrow> False)"
  by code_simp

theorem carried_option_keeps_round_open_witness:
  "\<exists>a e b s. onPlayerJoin waitingActor waitingRoom ''player-7'' (Some ''Bob'') (Some ''token-bob'')
               (Some 4) ''uuid'' = Returned a \<and>
     cache a = Some carriedRoom \<and>
     onPlayerAnswer a carriedRoom ''player-1'' (Some ''q2'') (Some ''a'') 31000 = Threw e b \<and>
     stored b = Some s \<and>
     roundS s = Some \<lparr>startMs = 30000, endMs = 50000, awaiting = [], msRemaining = None\<rparr>"
  using carried_option_keeps_round_open
  by (auto split: outcome.splits option.splits)

end
